theory Spec2Isabelle
  imports Main
begin

section \<open>Data model of the parking documents\<close>

text \<open>
  The documents are JSON files.  Counts of parking spaces are JSON integers and are
  modelled as \<open>int\<close>; strings are \<open>string\<close>; a member that may be absent
  (\<open>location.bus?.total\<close>) is an \<open>option\<close>.  The clock (\<open>new Date().toISOString()\<close>)
  is an explicit argument \<open>now\<close> of every routine that stamps a document.
\<close>

datatype vehicle = Bus | Mobil | Motor

text \<open>One vehicle block of a Data location: \<open>{total, available, last_update, updated_by, status}\<close>.\<close>

record vblock =
  v_total :: int
  v_available :: int
  v_last_update :: "string option"
  v_updated_by :: "string option"
  v_status :: "string option"

text \<open>A Location-State entry of the Data document.\<close>

record location =
  loc_id :: int
  nama :: string
  alamat :: string
  koordinat :: string
  status :: string
  operational_hours :: string
  bus :: "vblock option"
  mobil :: "vblock option"
  motor :: "vblock option"
  last_config_sync :: "string option"
  config_version :: "string option"
  lastValidated :: "string option"
  validationIssues :: "nat option"

text \<open>The statistics section of the Data document (the members the core reads or writes).\<close>

record statistics =
  total_bus_capacity :: int
  total_mobil_capacity :: int
  total_motor_capacity :: int
  total_available_bus :: int
  total_available_mobil :: int
  total_available_motor :: int
  last_recalculated :: "string option"
  recalculated_by :: "string option"
  stats_version :: "string option"

record metadata =
  last_updated :: "string option"
  version :: "string option"
  total_locations :: "int option"
  operation_name :: "string option"
  md_last_config_sync :: "string option"
  md_config_version :: "string option"
  sync_type :: "string option"

record data_doc =
  metadata :: metadata
  statistics :: statistics
  locations :: "location list"

text \<open>
  A Location-Config entry.  \<open>capacity.bus\<close>, \<open>capacity.mobil\<close> and \<open>capacity.motor\<close>
  are objects \<open>{total: n}\<close>; \<open>None\<close> stands for an absent object.
\<close>

record config_location =
  cfg_id :: int
  code :: string
  name :: string
  address :: string
  coordinates :: string
  cfg_status :: string
  cfg_operational_hours :: string
  cap_bus :: "int option"
  cap_mobil :: "int option"
  cap_motor :: "int option"

record total_capacity =
  tc_bus :: int
  tc_mobil :: int
  tc_motor :: int
  tc_total :: int

record config_doc =
  cfg_version :: string
  cfg_locations :: "config_location list"
  cfg_total_capacity :: total_capacity
  last_sync_from_data :: "string option"
  data_version :: "string option"

text \<open>\<open>location[vehicleType]\<close> and \<open>configLoc.capacity[vehicleType]\<close>.\<close>

fun block :: "location \<Rightarrow> vehicle \<Rightarrow> vblock option" where
  "block l Bus = bus l"
| "block l Mobil = mobil l"
| "block l Motor = motor l"

fun set_block :: "vehicle \<Rightarrow> vblock option \<Rightarrow> location \<Rightarrow> location" where
  "set_block Bus b l = l\<lparr>bus := b\<rparr>"
| "set_block Mobil b l = l\<lparr>mobil := b\<rparr>"
| "set_block Motor b l = l\<lparr>motor := b\<rparr>"

fun capacity :: "config_location \<Rightarrow> vehicle \<Rightarrow> int option" where
  "capacity c Bus = cap_bus c"
| "capacity c Mobil = cap_mobil c"
| "capacity c Motor = cap_motor c"

fun set_capacity :: "vehicle \<Rightarrow> int option \<Rightarrow> config_location \<Rightarrow> config_location" where
  "set_capacity Bus n c = c\<lparr>cap_bus := n\<rparr>"
| "set_capacity Mobil n c = c\<lparr>cap_mobil := n\<rparr>"
| "set_capacity Motor n c = c\<lparr>cap_motor := n\<rparr>"

text \<open>\<open>location.bus?.total || 0\<close>: an absent block reads as 0 (and 0 stays 0).\<close>

definition total_or0 :: "vblock option \<Rightarrow> int" where
  "total_or0 b = (case b of None \<Rightarrow> 0 | Some v \<Rightarrow> v_total v)"

definition available_or0 :: "vblock option \<Rightarrow> int" where
  "available_or0 b = (case b of None \<Rightarrow> 0 | Some v \<Rightarrow> v_available v)"

text \<open>\<open>configLoc.capacity[vehicleType]?.total || 0\<close>.\<close>

definition cap_or0 :: "int option \<Rightarrow> int" where
  "cap_or0 c = (case c of None \<Rightarrow> 0 | Some n \<Rightarrow> n)"

text \<open>The exceptions of the host language that the routines can raise.\<close>

datatype js_error = TypeError | SyntaxError | IOError | ZlibError

section \<open>Statistics calculator\<close>

text \<open>The six sums that every copy of the calculator returns.\<close>

record stats =
  s_total_bus_capacity :: int
  s_total_mobil_capacity :: int
  s_total_motor_capacity :: int
  s_total_available_bus :: int
  s_total_available_mobil :: int
  s_total_available_motor :: int

definition stats0 :: stats where
  "stats0 = \<lparr>s_total_bus_capacity = 0, s_total_mobil_capacity = 0, s_total_motor_capacity = 0,
     s_total_available_bus = 0, s_total_available_mobil = 0, s_total_available_motor = 0\<rparr>"

text \<open>The body of the \<open>forEach\<close> callback of \<open>calculateStatistics\<close>.\<close>

definition add_location :: "stats \<Rightarrow> location \<Rightarrow> stats" where
  "add_location st l =
     \<lparr>s_total_bus_capacity = s_total_bus_capacity st + total_or0 (bus l),
      s_total_mobil_capacity = s_total_mobil_capacity st + total_or0 (mobil l),
      s_total_motor_capacity = s_total_motor_capacity st + total_or0 (motor l),
      s_total_available_bus = s_total_available_bus st + available_or0 (bus l),
      s_total_available_mobil = s_total_available_mobil st + available_or0 (mobil l),
      s_total_available_motor = s_total_available_motor st + available_or0 (motor l)\<rparr>"

text \<open>\<open>StatisticsFixer.calculateStatistics\<close>: a \<open>forEach\<close> over the locations.\<close>

fun calc_loop :: "stats \<Rightarrow> location list \<Rightarrow> stats" where
  "calc_loop st [] = st"
| "calc_loop st (l # ls) = calc_loop (add_location st l) ls"

definition calculateStatistics :: "location list \<Rightarrow> stats" where
  "calculateStatistics ls = calc_loop stats0 ls"

text \<open>\<open>ConfigSyncer.calculateStatistics\<close>: the same text in the second class.\<close>

fun calc_loop_syncer :: "stats \<Rightarrow> location list \<Rightarrow> stats" where
  "calc_loop_syncer st [] = st"
| "calc_loop_syncer st (l # ls) =
     calc_loop_syncer
       \<lparr>s_total_bus_capacity = s_total_bus_capacity st + total_or0 (bus l),
        s_total_mobil_capacity = s_total_mobil_capacity st + total_or0 (mobil l),
        s_total_motor_capacity = s_total_motor_capacity st + total_or0 (motor l),
        s_total_available_bus = s_total_available_bus st + available_or0 (bus l),
        s_total_available_mobil = s_total_available_mobil st + available_or0 (mobil l),
        s_total_available_motor = s_total_available_motor st + available_or0 (motor l)\<rparr> ls"

definition calculateStatistics_syncer :: "location list \<Rightarrow> stats" where
  "calculateStatistics_syncer ls = calc_loop_syncer stats0 ls"









section \<open>Statistics Fixer (fix-statistics.js)\<close>

text \<open>The entries that \<open>checkConsistency\<close> pushes onto \<open>issues\<close>, by their template.\<close>

datatype issue =
    NotFoundInConfig string
  | CapacityMismatch string vehicle int int
  | AvailableExceeds string vehicle int int

text \<open>
  \<open>configMap[loc.code] = loc\<close> for every Configuration entry, in order: a later
  entry with the same code replaces an earlier one.  The map is keyed by \<open>code\<close>.
  (Names are taken not to collide with the members every host object inherits.)
\<close>

fun configMap_loop :: "(string \<rightharpoonup> config_location) \<Rightarrow> config_location list
    \<Rightarrow> (string \<rightharpoonup> config_location)" where
  "configMap_loop m [] = m"
| "configMap_loop m (c # cs) = configMap_loop (m(code c \<mapsto> c)) cs"

definition configMap :: "config_doc \<Rightarrow> (string \<rightharpoonup> config_location)" where
  "configMap config = configMap_loop Map.empty (cfg_locations config)"

definition mismatch_issue :: "string \<Rightarrow> vehicle \<Rightarrow> vblock \<Rightarrow> int \<Rightarrow> issue list" where
  "mismatch_issue nm v b c =
     (if v_total b \<noteq> c then [CapacityMismatch nm v (v_total b) c] else [])"

definition exceeds_issue :: "string \<Rightarrow> vehicle \<Rightarrow> vblock \<Rightarrow> issue list" where
  "exceeds_issue nm v b =
     (if v_available b > v_total b then [AvailableExceeds nm v (v_available b) (v_total b)]
      else [])"

definition clamp_block :: "vblock \<Rightarrow> vblock" where
  "clamp_block b = (if v_available b > v_total b then b\<lparr>v_available := v_total b\<rparr> else b)"

text \<open>
  The body of \<open>data.locations.forEach\<close> in \<open>checkConsistency\<close>.  A location whose
  \<open>nama\<close> is no key of the map is reported and left as it is (the early \<open>return\<close>).
  \<open>dataLoc.bus.total\<close> and \<open>configLoc.capacity.bus.total\<close> raise a TypeError when the
  block is absent.
\<close>

definition check_location :: "(string \<rightharpoonup> config_location) \<Rightarrow> location
    \<Rightarrow> js_error + (issue list \<times> location)" where
  "check_location cm dataLoc =
     (case cm (nama dataLoc) of
        None \<Rightarrow> Inr ([NotFoundInConfig (nama dataLoc)], dataLoc)
      | Some configLoc \<Rightarrow>
          (case (bus dataLoc, mobil dataLoc, motor dataLoc) of
             (Some b, Some m, Some r) \<Rightarrow>
               (case (cap_bus configLoc, cap_mobil configLoc, cap_motor configLoc) of
                  (Some cb, Some cmo, Some cr) \<Rightarrow>
                    Inr (mismatch_issue (nama dataLoc) Bus b cb
                         @ mismatch_issue (nama dataLoc) Mobil m cmo
                         @ mismatch_issue (nama dataLoc) Motor r cr
                         @ exceeds_issue (nama dataLoc) Bus b
                         @ exceeds_issue (nama dataLoc) Mobil m
                         @ exceeds_issue (nama dataLoc) Motor r,
                         dataLoc\<lparr>bus := Some (clamp_block b), mobil := Some (clamp_block m),
                                  motor := Some (clamp_block r)\<rparr>)
                | _ \<Rightarrow> Inl TypeError)
           | _ \<Rightarrow> Inl TypeError))"

text \<open>The \<open>forEach\<close>: an exception in any callback ends the loop and the run.\<close>

fun check_locations :: "(string \<rightharpoonup> config_location) \<Rightarrow> location list
    \<Rightarrow> js_error + (issue list \<times> location list)" where
  "check_locations cm [] = Inr ([], [])"
| "check_locations cm (l # ls) =
     (case check_location cm l of
        Inl e \<Rightarrow> Inl e
      | Inr (is, l') \<Rightarrow>
          (case check_locations cm ls of
             Inl e \<Rightarrow> Inl e
           | Inr (js, ls') \<Rightarrow> Inr (is @ js, l' # ls')))"

definition checkConsistency :: "data_doc \<Rightarrow> config_doc \<Rightarrow> js_error + (issue list \<times> data_doc)" where
  "checkConsistency data config =
     (case check_locations (configMap config) (locations data) of
        Inl e \<Rightarrow> Inl e
      | Inr (issues, ls) \<Rightarrow> Inr (issues, data\<lparr>locations := ls\<rparr>))"

text \<open>\<open>fixMainStatistics\<close>: the six sums are overwritten, the other members kept, and the
  section is stamped.\<close>

definition fixMainStatistics :: "string \<Rightarrow> data_doc \<Rightarrow> data_doc" where
  "fixMainStatistics now data =
     (let calculated = calculateStatistics (locations data) in
      data\<lparr>statistics := (statistics data)
        \<lparr>total_bus_capacity := s_total_bus_capacity calculated,
         total_mobil_capacity := s_total_mobil_capacity calculated,
         total_motor_capacity := s_total_motor_capacity calculated,
         total_available_bus := s_total_available_bus calculated,
         total_available_mobil := s_total_available_mobil calculated,
         total_available_motor := s_total_available_motor calculated,
         last_recalculated := Some now,
         recalculated_by := Some ''fix-statistics.js'',
         stats_version := Some ''2.0.0''\<rparr>\<rparr>)"

text \<open>
  \<open>StatisticsFixer.run\<close> on the two parsed documents.  \<open>Inr (issues, doc)\<close>: the list
  of issues printed and counted in the result, and the document written to the Data
  file.  \<open>Inl e\<close>: the \<open>catch\<close> branch; nothing is written and the Data file stays as
  it was.
\<close>

definition run :: "config_doc \<Rightarrow> string \<Rightarrow> data_doc \<Rightarrow> js_error + (issue list \<times> data_doc)" where
  "run config now data =
     (case checkConsistency data config of
        Inl e \<Rightarrow> Inl e
      | Inr (issues, fixedData) \<Rightarrow> Inr (issues, fixMainStatistics now fixedData))"

text \<open>The Data file after a run.\<close>

definition file_after_run :: "config_doc \<Rightarrow> string \<Rightarrow> data_doc \<Rightarrow> data_doc" where
  "file_after_run config now data =
     (case run config now data of Inl e \<Rightarrow> data | Inr (issues, d) \<Rightarrow> d)"



text \<open>An issue entry that speaks of vehicle type \<open>v\<close> of the location named \<open>nm\<close>.\<close>

fun about :: "string \<Rightarrow> vehicle \<Rightarrow> issue \<Rightarrow> bool" where
  "about nm v (NotFoundInConfig n) = False"
| "about nm v (CapacityMismatch n w a b) = (n = nm \<and> w = v)"
| "about nm v (AvailableExceeds n w a b) = (n = nm \<and> w = v)"

text \<open>What one location contributes to the result of \<open>checkConsistency\<close>.\<close>

definition issues_of :: "(string \<rightharpoonup> config_location) \<Rightarrow> location \<Rightarrow> issue list" where
  "issues_of cm l = (case check_location cm l of Inl e \<Rightarrow> [] | Inr (is, l') \<Rightarrow> is)"


text \<open>Two documents that differ at most in \<open>statistics.last_recalculated\<close>.\<close>

definition same_but_stamp :: "data_doc \<Rightarrow> data_doc \<Rightarrow> bool" where
  "same_but_stamp d d' =
     (metadata d = metadata d' \<and> locations d = locations d' \<and>
      (statistics d)\<lparr>last_recalculated := None\<rparr> = (statistics d')\<lparr>last_recalculated := None\<rparr>)"

section \<open>Example documents\<close>

definition blk :: "int \<Rightarrow> int \<Rightarrow> vblock" where
  "blk t a = \<lparr>v_total = t, v_available = a, v_last_update = None, v_updated_by = None,
      v_status = None\<rparr>"

definition mk_location :: "int \<Rightarrow> string \<Rightarrow> vblock option \<Rightarrow> vblock option \<Rightarrow> vblock option
    \<Rightarrow> location" where
  "mk_location i n b m r = \<lparr>loc_id = i, nama = n, alamat = ''JL'', koordinat = ''0,0'',
     status = ''open'', operational_hours = ''06:00-22:00'', bus = b, mobil = m, motor = r,
     last_config_sync = None, config_version = None, lastValidated = None,
     validationIssues = None\<rparr>"

definition mk_config_location :: "int \<Rightarrow> string \<Rightarrow> string \<Rightarrow> int option \<Rightarrow> int option
    \<Rightarrow> int option \<Rightarrow> config_location" where
  "mk_config_location i c n b m r = \<lparr>cfg_id = i, code = c, name = n, address = ''JL'',
     coordinates = ''0,0'', cfg_status = ''open'', cfg_operational_hours = ''06:00-22:00'',
     cap_bus = b, cap_mobil = m, cap_motor = r\<rparr>"

definition mk_data :: "location list \<Rightarrow> data_doc" where
  "mk_data ls = \<lparr>metadata = \<lparr>last_updated = None, version = Some ''2.0.0'',
       total_locations = Some (int (length ls)), operation_name = None,
       md_last_config_sync = None, md_config_version = None, sync_type = None\<rparr>,
     statistics = \<lparr>total_bus_capacity = 0, total_mobil_capacity = 0, total_motor_capacity = 0,
       total_available_bus = 0, total_available_mobil = 0, total_available_motor = 0,
       last_recalculated = None, recalculated_by = None, stats_version = None\<rparr>,
     locations = ls\<rparr>"

definition mk_config :: "config_location list \<Rightarrow> config_doc" where
  "mk_config cs = \<lparr>cfg_version = ''1.0.0'', cfg_locations = cs,
     cfg_total_capacity = \<lparr>tc_bus = 0, tc_mobil = 0, tc_motor = 0, tc_total = 0\<rparr>,
     last_sync_from_data = None, data_version = None\<rparr>"

text \<open>The scenario of \<section>8: SENOPATI with \<open>mobil: {total: 200, available: 250}\<close>.\<close>

definition senopati_data :: data_doc where
  "senopati_data = mk_data [mk_location 1 ''SENOPATI'' (Some (blk 62 62)) (Some (blk 200 250))
      (Some (blk 0 0))]"

definition senopati_config :: config_doc where
  "senopati_config = mk_config [mk_config_location 1 ''SENOPATI'' ''SENOPATI'' (Some 62) (Some 200)
      (Some 0)]"

section \<open>Parking Data Validator (validate-parking.js)\<close>

text \<open>
  The options the validator reads: \<open>mode\<close> (default \<open>strict\<close>), \<open>force\<close> and
  \<open>dry-run\<close>.
\<close>

record validator_config =
  mode :: string
  force :: bool
  dry_run :: bool

datatype v_issue =
    IdNotInConfig int
  | TotalMismatch vehicle int int
  | NegativeAvailable vehicle int
  | ExceedsTotal vehicle int int

datatype v_fix =
    CreatedMissing vehicle
  | FixedTotal vehicle int
  | FixedNegative
  | FixedAvailable int
  | Updated vehicle int int int int

text \<open>\<open>parseNumber(value, 0)\<close> on an integer: \<open>Math.max(0, Math.round(num))\<close>.\<close>

definition parseNumber :: "int \<Rightarrow> int" where
  "parseNumber num = max 0 num"

text \<open>\<open>a || b\<close> on numbers: \<open>a\<close> unless it is 0.\<close>

definition or_num :: "int \<Rightarrow> int \<Rightarrow> int" where
  "or_num a b = (if a \<noteq> 0 then a else b)"

definition zero_block :: vblock where
  "zero_block = \<lparr>v_total = 0, v_available = 0, v_last_update = None, v_updated_by = None,
      v_status = None\<rparr>"

text \<open>\<open>configLocation?.capacity?.[vehicleType]?.total || 0\<close>.\<close>

definition config_capacity :: "config_location option \<Rightarrow> vehicle \<Rightarrow> int" where
  "config_capacity configLocation vehicleType =
     (case configLocation of None \<Rightarrow> 0 | Some c \<Rightarrow> cap_or0 (capacity c vehicleType))"

text \<open>
  \<open>processVehicleType(location, vehicleType, configLocation)\<close>, statement by statement.
  The comparisons use the parsed \<open>total\<close> and \<open>available\<close>, the assignments go to
  \<open>vehicleData\<close>.
\<close>

definition processVehicleType :: "validator_config \<Rightarrow> location \<Rightarrow> vehicle
    \<Rightarrow> config_location option \<Rightarrow> (v_issue list \<times> v_fix list) \<times> location" where
  "processVehicleType vc location vehicleType configLocation =
     (let created = (block location vehicleType = None);
          vd0 = (case block location vehicleType of None \<Rightarrow> zero_block | Some b \<Rightarrow> b);
          originalTotal = v_total vd0;
          originalAvailable = v_available vd0;
          total = parseNumber (v_total vd0);
          available = parseNumber (v_available vd0);
          configCapacity = config_capacity configLocation vehicleType;
          differs = (configCapacity > 0 \<and> total \<noteq> configCapacity);
          rewrite = (differs \<and> (force vc \<or> mode vc = ''fix''));
          vd1 = (if rewrite then vd0\<lparr>v_total := configCapacity\<rparr> else vd0);
          vd2 = (if available < 0 then vd1\<lparr>v_available := 0\<rparr> else vd1);
          vd3 = (if available > total then vd2\<lparr>v_available := total\<rparr> else vd2);
          vd4 = vd3\<lparr>v_total := or_num (v_total vd3) total\<rparr>;
          vd5 = vd4\<lparr>v_available := or_num (v_available vd4) (min available (v_total vd4))\<rparr>;
          issues =
            (if differs then [TotalMismatch vehicleType total configCapacity] else [])
            @ (if available < 0 then [NegativeAvailable vehicleType available] else [])
            @ (if available > total then [ExceedsTotal vehicleType available total] else []);
          fixes =
            (if created then [CreatedMissing vehicleType] else [])
            @ (if rewrite then [FixedTotal vehicleType configCapacity] else [])
            @ (if available < 0 then [FixedNegative] else [])
            @ (if available > total then [FixedAvailable total] else [])
            @ (if originalTotal \<noteq> v_total vd5 \<or> originalAvailable \<noteq> v_available vd5
               then [Updated vehicleType originalTotal (v_total vd5) originalAvailable
                       (v_available vd5)]
               else [])
      in ((issues, fixes), set_block vehicleType (Some vd5) location))"

text \<open>\<open>validateStructure\<close>: a location without \<open>nama\<close> is an error; an absent vehicle
  block is replaced by \<open>{total: 0, available: 0}\<close>.\<close>

definition fill_blocks :: "location \<Rightarrow> location" where
  "fill_blocks l =
     l\<lparr>bus := Some (case bus l of None \<Rightarrow> zero_block | Some b \<Rightarrow> b),
       mobil := Some (case mobil l of None \<Rightarrow> zero_block | Some b \<Rightarrow> b),
       motor := Some (case motor l of None \<Rightarrow> zero_block | Some b \<Rightarrow> b)\<rparr>"

datatype v_error = StructureError "nat list" | Thrown js_error

definition validateStructure :: "data_doc \<Rightarrow> v_error + data_doc" where
  "validateStructure data =
     (let missing = filter (\<lambda>i. nama (locations data ! i) = []) [0 ..< length (locations data)]
      in if missing \<noteq> [] then Inl (StructureError missing)
         else Inr (data\<lparr>locations := map fill_blocks (locations data)\<rparr>))"

text \<open>
  One turn of the loop of \<open>processData\<close>: the Configuration entry is found by \<open>id\<close>,
  the three vehicle types are processed in the order bus, mobil, motor, and the location
  is stamped.  (The recommendations and the utilisation percentages are floating-point
  texts and are left out; so is the 30-second guard.)
\<close>

definition process_location :: "validator_config \<Rightarrow> config_location list \<Rightarrow> string \<Rightarrow> location
    \<Rightarrow> (v_issue list \<times> v_fix list) \<times> location" where
  "process_location vc cfgs now location =
     (let configLocation = find (\<lambda>l. cfg_id l = loc_id location) cfgs;
          i0 = (case configLocation of None \<Rightarrow> [IdNotInConfig (loc_id location)] | Some c \<Rightarrow> []);
          ((i1, f1), l1) = processVehicleType vc location Bus configLocation;
          ((i2, f2), l2) = processVehicleType vc l1 Mobil configLocation;
          ((i3, f3), l3) = processVehicleType vc l2 Motor configLocation;
          locationIssues = i0 @ i1 @ i2 @ i3
      in ((locationIssues, f1 @ f2 @ f3),
          l3\<lparr>lastValidated := Some now, validationIssues := Some (length locationIssues)\<rparr>))"

text \<open>
  The document that \<open>validate\<close> saves: \<open>loadData\<close> (with \<open>validateStructure\<close>),
  \<open>processData\<close>, \<open>updateStatistics\<close> (its integer members) and \<open>saveData\<close>.
  \<open>None\<close>: dry-run, nothing is written.
\<close>

definition processData :: "validator_config \<Rightarrow> config_doc \<Rightarrow> string \<Rightarrow> data_doc \<Rightarrow> data_doc" where
  "processData vc config now data =
     (let ls = map (\<lambda>l. snd (process_location vc (cfg_locations config) now l)) (locations data)
      in data\<lparr>locations := ls,
           statistics :=
             \<lparr>total_bus_capacity = sum_list (map (\<lambda>l. total_or0 (bus l)) ls),
              total_mobil_capacity = sum_list (map (\<lambda>l. total_or0 (mobil l)) ls),
              total_motor_capacity = sum_list (map (\<lambda>l. total_or0 (motor l)) ls),
              total_available_bus = sum_list (map (\<lambda>l. available_or0 (bus l)) ls),
              total_available_mobil = sum_list (map (\<lambda>l. available_or0 (mobil l)) ls),
              total_available_motor = sum_list (map (\<lambda>l. available_or0 (motor l)) ls),
              last_recalculated = Some now,
              recalculated_by = Some ''validate-parking.js'',
              stats_version = None\<rparr>\<rparr>)"

definition validate :: "validator_config \<Rightarrow> config_doc \<Rightarrow> string \<Rightarrow> data_doc
    \<Rightarrow> v_error + data_doc option" where
  "validate vc config now data =
     (case validateStructure data of
        Inl e \<Rightarrow> Inl e
      | Inr d \<Rightarrow>
          (let d' = processData vc config now d
           in if dry_run vc then Inr None else Inr (Some d')))"

section \<open>Config Synchronizer (sync-config.js)\<close>

datatype sync_update =
    UAddress string string
  | UCoordinates string string
  | UStatus string string
  | UCapacity vehicle int int
  | UAvailableAdjusted vehicle int int
  | UHours string string

text \<open>The branches that set \<open>dataLoc[vehicleType].status\<close>.\<close>

definition derive_status :: "int \<Rightarrow> int \<Rightarrow> string" where
  "derive_status configCapacity avail =
     (if configCapacity = 0 then ''not_available''
      else if avail = configCapacity then ''empty''
      else if avail = 0 then ''full''
      else ''available'')"

text \<open>The body of \<open>['bus', 'mobil', 'motor'].forEach\<close> in \<open>syncConfigToData\<close>.\<close>

definition sync_vehicle :: "string \<Rightarrow> config_location \<Rightarrow> location \<times> sync_update list \<Rightarrow> vehicle
    \<Rightarrow> location \<times> sync_update list" where
  "sync_vehicle now configLoc acc vehicleType =
     (let dataLoc = fst acc;
          configCapacity = cap_or0 (capacity configLoc vehicleType);
          dataTotal = total_or0 (block dataLoc vehicleType)
      in if configCapacity \<noteq> dataTotal then
           (let b0 = (case block dataLoc vehicleType of
                        None \<Rightarrow> \<lparr>v_total = 0, v_available = 0, v_last_update = Some now,
                                  v_updated_by = Some ''system'', v_status = Some ''empty''\<rparr>
                      | Some b \<Rightarrow> b);
                b1 = b0\<lparr>v_total := configCapacity\<rparr>;
                adjust = (v_available b1 > configCapacity);
                b2 = (if adjust then b1\<lparr>v_available := configCapacity\<rparr> else b1);
                b3 = b2\<lparr>v_status := Some (derive_status configCapacity (v_available b2))\<rparr>
            in (set_block vehicleType (Some b3) dataLoc,
                snd acc @ [UCapacity vehicleType dataTotal configCapacity]
                  @ (if adjust then [UAvailableAdjusted vehicleType (v_available b1) configCapacity]
                     else [])))
         else acc)"

text \<open>The body of \<open>config.locations.forEach\<close> for a location that was found.\<close>

definition sync_location :: "string \<Rightarrow> string \<Rightarrow> config_location \<Rightarrow> location
    \<Rightarrow> location \<times> sync_update list" where
  "sync_location now ver configLoc dataLoc =
     (let u1 = (if alamat dataLoc \<noteq> address configLoc
                then [UAddress (alamat dataLoc) (address configLoc)] else []);
          u2 = (if koordinat dataLoc \<noteq> coordinates configLoc
                then [UCoordinates (koordinat dataLoc) (coordinates configLoc)] else []);
          u3 = (if status dataLoc \<noteq> cfg_status configLoc
                then [UStatus (status dataLoc) (cfg_status configLoc)] else []);
          l1 = dataLoc\<lparr>alamat := address configLoc, koordinat := coordinates configLoc,
                 status := cfg_status configLoc\<rparr>;
          (l2, u4) = foldl (sync_vehicle now configLoc) (l1, u1 @ u2 @ u3) [Bus, Mobil, Motor];
          u5 = (if operational_hours l2 \<noteq> cfg_operational_hours configLoc
                then [UHours (operational_hours l2) (cfg_operational_hours configLoc)] else [])
      in (l2\<lparr>operational_hours := cfg_operational_hours configLoc,
             last_config_sync := Some now, config_version := Some ver\<rparr>,
          u4 @ u5))"

text \<open>\<open>data.locations.find(l => l.nama === configLoc.name)\<close> followed by the update in
  place of the location found: the first match is the one that changes.\<close>

fun update_first :: "('a \<Rightarrow> bool) \<Rightarrow> ('a \<Rightarrow> 'a) \<Rightarrow> 'a list \<Rightarrow> 'a list" where
  "update_first P f [] = []"
| "update_first P f (x # xs) = (if P x then f x # xs else x # update_first P f xs)"

record sync_state =
  ss_locations :: "location list"
  ss_updates :: "(string \<times> sync_update list) list"
  ss_errors :: "string list"

definition sync_step :: "string \<Rightarrow> string \<Rightarrow> sync_state \<Rightarrow> config_location \<Rightarrow> sync_state" where
  "sync_step now ver st configLoc =
     (case find (\<lambda>l. nama l = name configLoc) (ss_locations st) of
        None \<Rightarrow> st\<lparr>ss_errors := ss_errors st @ [name configLoc]\<rparr>
      | Some dataLoc \<Rightarrow>
          (let (l', ups) = sync_location now ver configLoc dataLoc
           in st\<lparr>ss_locations :=
                   update_first (\<lambda>l. nama l = name configLoc) (\<lambda>l. l') (ss_locations st),
                 ss_updates := (if ups \<noteq> [] then ss_updates st @ [(name configLoc, ups)]
                                else ss_updates st)\<rparr>))"

record sync_result =
  sr_success :: bool
  sr_updates :: nat
  sr_errors :: nat

text \<open>\<open>syncConfigToData\<close> on the two parsed documents: the result and the Data
  document it writes (it writes also when some location was not found).\<close>

definition syncConfigToData :: "config_doc \<Rightarrow> string \<Rightarrow> data_doc \<Rightarrow> sync_result \<times> data_doc" where
  "syncConfigToData config now data =
     (let md = (metadata data)\<lparr>md_last_config_sync := Some now,
                  md_config_version := Some (cfg_version config),
                  sync_type := Some ''config_to_data''\<rparr>;
          st = foldl (sync_step now (cfg_version config))
                 \<lparr>ss_locations = locations data, ss_updates = [], ss_errors = []\<rparr>
                 (cfg_locations config);
          stats = calculateStatistics_syncer (ss_locations st)
      in (\<lparr>sr_success = (ss_errors st = []), sr_updates = length (ss_updates st),
            sr_errors = length (ss_errors st)\<rparr>,
          data\<lparr>metadata := md, locations := ss_locations st,
               statistics := (statistics data)
                 \<lparr>total_bus_capacity := s_total_bus_capacity stats,
                  total_mobil_capacity := s_total_mobil_capacity stats,
                  total_motor_capacity := s_total_motor_capacity stats,
                  total_available_bus := s_total_available_bus stats,
                  total_available_mobil := s_total_available_mobil stats,
                  total_available_motor := s_total_available_motor stats,
                  last_recalculated := Some now,
                  recalculated_by := Some ''sync-config.js''\<rparr>\<rparr>))"

text \<open>
  \<open>syncDataToConfig\<close>.  The inner loop assigns \<open>configLoc.capacity[vehicleType].total\<close>,
  a TypeError when that capacity object is absent.
\<close>

datatype config_update = ConfigCapacity string vehicle int int

definition back_vehicle :: "location \<Rightarrow> js_error + (config_location \<times> config_update list)
    \<Rightarrow> vehicle \<Rightarrow> js_error + (config_location \<times> config_update list)" where
  "back_vehicle dataLoc acc vehicleType =
     (case acc of
        Inl e \<Rightarrow> Inl e
      | Inr (configLoc, ups) \<Rightarrow>
          (let dataTotal = total_or0 (block dataLoc vehicleType);
               configCapacity = cap_or0 (capacity configLoc vehicleType)
           in if dataTotal \<noteq> configCapacity then
                (case capacity configLoc vehicleType of
                   None \<Rightarrow> Inl TypeError
                 | Some old \<Rightarrow>
                     Inr (set_capacity vehicleType (Some dataTotal) configLoc,
                          ups @ [ConfigCapacity (name configLoc) vehicleType configCapacity
                                   dataTotal]))
              else Inr (configLoc, ups)))"

record back_state =
  bs_locations :: "config_location list"
  bs_updates :: "config_update list"
  bs_errors :: "string list"

definition back_step :: "js_error + back_state \<Rightarrow> location \<Rightarrow> js_error + back_state" where
  "back_step acc dataLoc =
     (case acc of
        Inl e \<Rightarrow> Inl e
      | Inr st \<Rightarrow>
          (case find (\<lambda>l. name l = nama dataLoc) (bs_locations st) of
             None \<Rightarrow> Inr (st\<lparr>bs_errors := bs_errors st @ [nama dataLoc]\<rparr>)
           | Some configLoc \<Rightarrow>
               (case foldl (back_vehicle dataLoc) (Inr (configLoc, [])) [Bus, Mobil, Motor] of
                  Inl e \<Rightarrow> Inl e
                | Inr (c', ups) \<Rightarrow>
                    Inr (st\<lparr>bs_locations :=
                              update_first (\<lambda>l. name l = nama dataLoc) (\<lambda>l. c') (bs_locations st),
                            bs_updates := bs_updates st @ ups\<rparr>))))"

text \<open>\<open>calculateTotalCapacities\<close>: \<open>location.capacity.bus.total || 0\<close> raises a
  TypeError when a capacity object is absent.\<close>

definition totals_step :: "js_error + total_capacity \<Rightarrow> config_location \<Rightarrow> js_error + total_capacity" where
  "totals_step acc location =
     (case acc of
        Inl e \<Rightarrow> Inl e
      | Inr totals \<Rightarrow>
          (case (cap_bus location, cap_mobil location, cap_motor location) of
             (Some b, Some m, Some r) \<Rightarrow>
               Inr \<lparr>tc_bus = tc_bus totals + b, tc_mobil = tc_mobil totals + m,
                    tc_motor = tc_motor totals + r, tc_total = tc_total totals + (b + m + r)\<rparr>
           | _ \<Rightarrow> Inl TypeError))"

definition calculateTotalCapacities :: "config_location list \<Rightarrow> js_error + total_capacity" where
  "calculateTotalCapacities ls =
     foldl totals_step (Inr \<lparr>tc_bus = 0, tc_mobil = 0, tc_motor = 0, tc_total = 0\<rparr>) ls"

definition syncDataToConfig :: "config_doc \<Rightarrow> string \<Rightarrow> data_doc
    \<Rightarrow> js_error + (sync_result \<times> config_doc)" where
  "syncDataToConfig config now data =
     (case foldl back_step
             (Inr \<lparr>bs_locations = cfg_locations config, bs_updates = [], bs_errors = []\<rparr>)
             (locations data) of
        Inl e \<Rightarrow> Inl e
      | Inr st \<Rightarrow>
          (case calculateTotalCapacities (bs_locations st) of
             Inl e \<Rightarrow> Inl e
           | Inr totals \<Rightarrow>
               Inr (\<lparr>sr_success = (bs_errors st = []), sr_updates = length (bs_updates st),
                     sr_errors = length (bs_errors st)\<rparr>,
                    config\<lparr>last_sync_from_data := Some now,
                           data_version := version (metadata data),
                           cfg_locations := bs_locations st,
                           cfg_total_capacity := totals\<rparr>)))"

text \<open>The two files after each pass: a pass that raises writes nothing.\<close>

definition data_after_pass1 :: "config_doc \<Rightarrow> string \<Rightarrow> data_doc \<Rightarrow> data_doc" where
  "data_after_pass1 config now data = snd (syncConfigToData config now data)"

definition config_after_pass2 :: "config_doc \<Rightarrow> string \<Rightarrow> data_doc \<Rightarrow> config_doc" where
  "config_after_pass2 config now data =
     (case syncDataToConfig config now data of Inl e \<Rightarrow> config | Inr (r, c) \<Rightarrow> c)"

text \<open>\<open>validateSync\<close>: the list \<open>inconsistencies\<close>, by template.\<close>

datatype inconsistency =
    CountMismatch nat nat
  | MissingInData string
  | CapacityDiff string vehicle int int
  | AddressMismatch string
  | CoordinatesMismatch string
  | TotalDiff vehicle int int

definition capacity_checks :: "config_location \<Rightarrow> location \<Rightarrow> inconsistency list" where
  "capacity_checks configLoc dataLoc =
     concat (map (\<lambda>vehicleType.
       (let configCapacity = cap_or0 (capacity configLoc vehicleType);
            dataTotal = total_or0 (block dataLoc vehicleType)
        in if configCapacity \<noteq> dataTotal
           then [CapacityDiff (name configLoc) vehicleType configCapacity dataTotal] else []))
       [Bus, Mobil, Motor])"

definition validate_location :: "location list \<Rightarrow> config_location \<Rightarrow> inconsistency list" where
  "validate_location ls configLoc =
     (case find (\<lambda>l. nama l = name configLoc) ls of
        None \<Rightarrow> [MissingInData (name configLoc)]
      | Some dataLoc \<Rightarrow>
          capacity_checks configLoc dataLoc
          @ (if address configLoc \<noteq> alamat dataLoc then [AddressMismatch (name configLoc)] else [])
          @ (if coordinates configLoc \<noteq> koordinat dataLoc
             then [CoordinatesMismatch (name configLoc)] else []))"

definition validateSync :: "config_doc \<Rightarrow> data_doc \<Rightarrow> inconsistency list" where
  "validateSync config data =
     (if length (cfg_locations config) \<noteq> length (locations data)
      then [CountMismatch (length (cfg_locations config)) (length (locations data))] else [])
     @ concat (map (validate_location (locations data)) (cfg_locations config))
     @ (if tc_bus (cfg_total_capacity config) \<noteq> total_bus_capacity (statistics data)
        then [TotalDiff Bus (tc_bus (cfg_total_capacity config))
                (total_bus_capacity (statistics data))] else [])
     @ (if tc_mobil (cfg_total_capacity config) \<noteq> total_mobil_capacity (statistics data)
        then [TotalDiff Mobil (tc_mobil (cfg_total_capacity config))
                (total_mobil_capacity (statistics data))] else [])
     @ (if tc_motor (cfg_total_capacity config) \<noteq> total_motor_capacity (statistics data)
        then [TotalDiff Motor (tc_motor (cfg_total_capacity config))
                (total_motor_capacity (statistics data))] else [])"

text \<open>A capacity inconsistency of a matched location.\<close>

fun is_capacity_diff :: "inconsistency \<Rightarrow> bool" where
  "is_capacity_diff (CapacityDiff n v a b) = True"
| "is_capacity_diff _ = False"






text \<open>Example inputs: the validator's options, a document that satisfies I1, a document
  with a location the Configuration does not list, and one with a negative count.\<close>

definition strict_vc :: validator_config where
  "strict_vc = \<lparr>mode = ''strict'', force = False, dry_run = False\<rparr>"

definition fix_vc :: validator_config where
  "fix_vc = \<lparr>mode = ''fix'', force = False, dry_run = False\<rparr>"



definition negative_data :: data_doc where
  "negative_data = mk_data [mk_location 1 ''SENOPATI'' (Some (blk 62 (- 5))) (Some (blk 200 150))
      (Some (blk 0 0))]"

definition senopati_entry :: config_location where
  "senopati_entry = mk_config_location 1 ''SENOPATI'' ''SENOPATI'' (Some 62) (Some 200) (Some 0)"

definition crowded_data :: data_doc where
  "crowded_data = mk_data [mk_location 1 ''SENOPATI'' (Some (blk 80 70)) (Some (blk 200 150))
      (Some (blk 0 0))]"

definition motor_data :: data_doc where
  "motor_data = mk_data [mk_location 1 ''SENOPATI'' (Some (blk 62 62)) (Some (blk 200 150))
      (Some (blk 40 10))]"


text \<open>A Data location whose totals are the capacities of a Configuration entry.\<close>

definition agree :: "config_location \<Rightarrow> location \<Rightarrow> bool" where
  "agree c l =
     (total_or0 (bus l) = cap_or0 (cap_bus c) \<and> total_or0 (mobil l) = cap_or0 (cap_mobil c) \<and>
      total_or0 (motor l) = cap_or0 (cap_motor c))"

text \<open>Two locations named alike in the Data document, one entry in the Configuration.\<close>

definition twin_data :: data_doc where
  "twin_data = mk_data
     [mk_location 1 ''SENOPATI'' (Some (blk 10 0)) (Some (blk 0 0)) (Some (blk 0 0)),
      mk_location 2 ''SENOPATI'' (Some (blk 5 0)) (Some (blk 0 0)) (Some (blk 0 0))]"

definition twin_config :: config_doc where
  "twin_config = mk_config [mk_config_location 1 ''SENOPATI'' ''SENOPATI'' (Some 10) (Some 0) (Some 0)]"

text \<open>The scenario of \<section>8 in which the Data document has \<open>bus.total = 50\<close>.\<close>

definition drift_data :: data_doc where
  "drift_data = mk_data [mk_location 1 ''SENOPATI'' (Some (blk 50 50)) (Some (blk 200 150))
      (Some (blk 0 0))]"

definition senopati_loc :: location where
  "senopati_loc = mk_location 1 ''SENOPATI'' (Some (blk 62 62)) (Some (blk 200 250)) (Some (blk 0 0))"

section \<open>JSON values and files\<close>

text \<open>
  A parsed JSON value.  Numbers are the integers the documents hold.  \<open>undefined\<close>, the
  value of a member that is not there, is \<open>None\<close> of \<open>json option\<close>.
\<close>

datatype json =
    JNull
  | JBool bool
  | JNum int
  | JStr string
  | JArr "json list"
  | JObj "(string \<times> json) list"

text \<open>The truth value the host language gives a value in a condition.\<close>

fun truthy :: "json option \<Rightarrow> bool" where
  "truthy None = False"
| "truthy (Some JNull) = False"
| "truthy (Some (JBool b)) = b"
| "truthy (Some (JNum n)) = (n \<noteq> 0)"
| "truthy (Some (JStr s)) = (s \<noteq> [])"
| "truthy (Some (JArr xs)) = True"
| "truthy (Some (JObj kvs)) = True"

text \<open>
  \<open>value[key]\<close> for a member name: a TypeError on \<open>null\<close>, the member of an object
  (the last one when the text repeated the key), \<open>undefined\<close> on any other value.
\<close>

fun get_member :: "json \<Rightarrow> string \<Rightarrow> js_error + json option" where
  "get_member JNull k = Inl TypeError"
| "get_member (JObj kvs) k = Inr (map_of (rev kvs) k)"
| "get_member v k = Inr None"

text \<open>\<open>value?.key\<close>.\<close>

definition opt_member :: "json option \<Rightarrow> string \<Rightarrow> json option" where
  "opt_member v k =
     (case v of None \<Rightarrow> None
      | Some j \<Rightarrow> (case get_member j k of Inl e \<Rightarrow> None | Inr r \<Rightarrow> r))"


text \<open>An object with the member \<open>k\<close> set to \<open>v\<close>.\<close>

definition set_member :: "string \<Rightarrow> json \<Rightarrow> (string \<times> json) list \<Rightarrow> (string \<times> json) list" where
  "set_member k v kvs = filter (\<lambda>kv. fst kv \<noteq> k) kvs @ [(k, v)]"

text \<open>
  What \<open>JSON.parse\<close> makes of a text, and a file: of size zero, a text as it is, or a
  gzip stream of a text.
\<close>

datatype json_text = Unparseable | Parses json

datatype disk_file = Zero_size | Plain json_text | Gzip json_text

definition ends_with :: "string \<Rightarrow> string \<Rightarrow> bool" where
  "ends_with suf s = (length suf \<le> length s \<and> drop (length s - length suf) s = suf)"

definition starts_with :: "string \<Rightarrow> string \<Rightarrow> bool" where
  "starts_with pre s = (take (length pre) s = pre)"

fun parse :: "json_text \<Rightarrow> js_error + json" where
  "parse Unparseable = Inl SyntaxError"
| "parse (Parses j) = Inr j"

text \<open>\<open>JSON.parse(fs.readFileSync(path, 'utf8'))\<close>: a gzip stream read as text does not
  parse, nor does the empty text.\<close>

fun read_plain :: "disk_file \<Rightarrow> js_error + json" where
  "read_plain (Plain t) = parse t"
| "read_plain f = Inl SyntaxError"

text \<open>\<open>JSON.parse(zlib.gunzipSync(fs.readFileSync(path)).toString())\<close>.\<close>

fun read_gzip :: "disk_file \<Rightarrow> js_error + json" where
  "read_gzip (Gzip t) = parse t"
| "read_gzip f = Inl ZlibError"

text \<open>The branch on \<open>path.endsWith('.gz')\<close> that \<open>verifyBackup\<close> and the two restore
  routines share.\<close>

definition read_backup :: "string \<Rightarrow> disk_file \<Rightarrow> js_error + json" where
  "read_backup path f = (if ends_with ''.gz'' path then read_gzip f else read_plain f)"

section \<open>Backup Manager: verifyBackup (backup-manager.js)\<close>

datatype verify_error = Empty_file | Invalid_backup_structure | Caught js_error

text \<open>\<open>Valid timestamp type\<close>: the result \<open>{valid: true, ...}\<close> with
  \<open>data.metadata?.backup_timestamp\<close> and \<open>data.metadata?.backup_type\<close>;
  \<open>Invalid e\<close>: \<open>{valid: false, error}\<close>.  (The size reported is not modelled.)\<close>

datatype verify_result = Valid "json option" "json option" | Invalid verify_error

text \<open>
  \<open>verifyBackup(backupFile)\<close>.  The file is \<open>None\<close> when the path does not exist
  (\<open>statSync\<close> raises).  \<open>requiredFields.every(field => data[field])\<close> tests
  \<open>metadata\<close>, then \<open>data\<close>, for truthiness.
\<close>

definition verifyBackup :: "string \<Rightarrow> disk_file option \<Rightarrow> verify_result" where
  "verifyBackup backupFile f =
     (case f of
        None \<Rightarrow> Invalid (Caught IOError)
      | Some Zero_size \<Rightarrow> Invalid Empty_file
      | Some fl \<Rightarrow>
          (case read_backup backupFile fl of
             Inl e \<Rightarrow> Invalid (Caught e)
           | Inr data \<Rightarrow>
               (case get_member data ''metadata'' of
                  Inl e \<Rightarrow> Invalid (Caught e)
                | Inr md \<Rightarrow>
                    if \<not> truthy md then Invalid Invalid_backup_structure
                    else (case get_member data ''data'' of
                            Inl e \<Rightarrow> Invalid (Caught e)
                          | Inr d \<Rightarrow>
                              if \<not> truthy d then Invalid Invalid_backup_structure
                              else Valid (opt_member md ''backup_timestamp'')
                                     (opt_member md ''backup_type'')))))"

fun is_valid :: "verify_result \<Rightarrow> bool" where
  "is_valid (Valid t ty) = True"
| "is_valid (Invalid e) = False"

text \<open>The presence test of the code, \<open>data[field]\<close> in a condition: a member that is
  absent, \<open>null\<close>, \<open>false\<close>, 0 or the empty string does not count as present.\<close>

definition has_field :: "json \<Rightarrow> string \<Rightarrow> bool" where
  "has_field j k = (case get_member j k of Inl e \<Rightarrow> False | Inr v \<Rightarrow> truthy v)"

text \<open>A member with that name occurs in the parsed object at all.\<close>

fun has_key :: "json \<Rightarrow> string \<Rightarrow> bool" where
  "has_key (JObj kvs) k = (k \<in> set (map fst kvs))"
| "has_key v k = False"

text \<open>Example backups: the wrapper that \<open>createBackup\<close> writes, and a wrapper whose
  \<open>data\<close> member is \<open>null\<close>.\<close>

definition sample_document :: json where
  "sample_document = JObj [(''metadata'', JObj [(''last_updated'', JStr ''2026-04-20T00:00:00.000Z'')]),
     (''statistics'', JObj []), (''locations'', JArr [])]"

definition sample_wrapper :: json where
  "sample_wrapper = JObj [(''metadata'', JObj [(''backup_timestamp'', JStr ''2026-04-20T00:00:00.000Z''),
       (''backup_type'', JStr ''manual'')]),
     (''data'', sample_document)]"

definition null_data_wrapper :: json where
  "null_data_wrapper = JObj [(''metadata'', JObj [(''backup_type'', JStr ''manual'')]),
     (''data'', JNull)]"

section \<open>Emergency recovery (emergency-recovery.js)\<close>






































section \<open>Consistency verifier (verify-consistency.js)\<close>

text \<open>
  The two documents as the verifier probes them: a section that is absent (or, for
  \<open>locations\<close>, not an array) is \<open>None\<close>.
\<close>

record raw_config =
  rc_locations :: "config_location list option"
  rc_total_capacity :: "total_capacity option"

record raw_data =
  rd_locations :: "location list option"
  rd_statistics :: "statistics option"
  rd_metadata :: "metadata option"

datatype check_issue =
    Missing_config_locations
  | Missing_total_capacity
  | Missing_data_locations
  | Missing_statistics
  | Missing_metadata
  | Location_count_mismatch nat nat
  | Config_location_not_in_data string
  | Capacity_mismatch string vehicle int int
  | Available_exceeds_total string vehicle int int
  | Coordinates_mismatch string
  | Address_mismatch string
  | Stat_capacity_mismatch vehicle int int
  | Stat_available_mismatch vehicle int int
  | Missing_metadata_field string
  | Invalid_version_format string
  | Total_locations_mismatch "int option" nat

definition verifyStructure :: "raw_config \<Rightarrow> raw_data \<Rightarrow> check_issue list" where
  "verifyStructure config data =
     (if rc_locations config = None then [Missing_config_locations] else [])
     @ (if rc_total_capacity config = None then [Missing_total_capacity] else [])
     @ (if rd_locations data = None then [Missing_data_locations] else [])
     @ (if rd_statistics data = None then [Missing_statistics] else [])
     @ (if rd_metadata data = None then [Missing_metadata] else [])"

text \<open>\<open>config.locations?.length || 0\<close>.\<close>

definition length_or0 :: "'a list option \<Rightarrow> nat" where
  "length_or0 xs = (case xs of None \<Rightarrow> 0 | Some l \<Rightarrow> length l)"

definition verifyLocationCount :: "raw_config \<Rightarrow> raw_data \<Rightarrow> check_issue list" where
  "verifyLocationCount config data =
     (if length_or0 (rc_locations config) \<noteq> length_or0 (rd_locations data)
      then [Location_count_mismatch (length_or0 (rc_locations config))
              (length_or0 (rd_locations data))]
      else [])"

definition verifyLocationCapacity :: "config_location \<Rightarrow> location \<Rightarrow> check_issue list" where
  "verifyLocationCapacity configLoc dataLoc =
     concat (map (\<lambda>vehicleType.
       (let configCapacity = cap_or0 (capacity configLoc vehicleType);
            dataTotal = total_or0 (block dataLoc vehicleType);
            dataAvailable = available_or0 (block dataLoc vehicleType)
        in (if configCapacity \<noteq> dataTotal
            then [Capacity_mismatch (name configLoc) vehicleType configCapacity dataTotal] else [])
           @ (if dataAvailable > dataTotal
              then [Available_exceeds_total (name configLoc) vehicleType dataAvailable dataTotal]
              else [])))
       [Bus, Mobil, Motor])"

text \<open>\<open>dataMap[loc.nama] = loc\<close>: a later location of the same name replaces an earlier
  one.\<close>

fun dataMap_loop :: "(string \<rightharpoonup> location) \<Rightarrow> location list \<Rightarrow> (string \<rightharpoonup> location)" where
  "dataMap_loop m [] = m"
| "dataMap_loop m (l # ls) = dataMap_loop (m(nama l \<mapsto> l)) ls"

definition verifyIndividualLocations :: "raw_config \<Rightarrow> raw_data \<Rightarrow> js_error + check_issue list" where
  "verifyIndividualLocations config data =
     (case (rc_locations config, rd_locations data) of
        (Some cls, Some dls) \<Rightarrow>
          Inr (concat (map (\<lambda>configLoc.
            (case dataMap_loop Map.empty dls (name configLoc) of
               None \<Rightarrow> [Config_location_not_in_data (name configLoc)]
             | Some dataLoc \<Rightarrow>
                 verifyLocationCapacity configLoc dataLoc
                 @ (if coordinates configLoc \<noteq> koordinat dataLoc
                    then [Coordinates_mismatch (name configLoc)] else [])
                 @ (if address configLoc \<noteq> alamat dataLoc
                    then [Address_mismatch (name configLoc)] else []))) cls))
      | other \<Rightarrow> Inl TypeError)"

definition verifyTotalStatistics :: "raw_config \<Rightarrow> raw_data \<Rightarrow> js_error + check_issue list" where
  "verifyTotalStatistics config data =
     (case (rc_total_capacity config, rd_statistics data, rd_locations data) of
        (Some configTotals, Some dataStats, Some dls) \<Rightarrow>
          (let calculatedBus = sum_list (map (\<lambda>loc. available_or0 (bus loc)) dls);
               calculatedMobil = sum_list (map (\<lambda>loc. available_or0 (mobil loc)) dls);
               calculatedMotor = sum_list (map (\<lambda>loc. available_or0 (motor loc)) dls)
           in Inr (
             (if tc_bus configTotals \<noteq> total_bus_capacity dataStats
              then [Stat_capacity_mismatch Bus (tc_bus configTotals) (total_bus_capacity dataStats)]
              else [])
             @ (if tc_mobil configTotals \<noteq> total_mobil_capacity dataStats
                then [Stat_capacity_mismatch Mobil (tc_mobil configTotals)
                        (total_mobil_capacity dataStats)]
                else [])
             @ (if tc_motor configTotals \<noteq> total_motor_capacity dataStats
                then [Stat_capacity_mismatch Motor (tc_motor configTotals)
                        (total_motor_capacity dataStats)]
                else [])
             @ (if calculatedBus \<noteq> total_available_bus dataStats
                then [Stat_available_mismatch Bus calculatedBus (total_available_bus dataStats)]
                else [])
             @ (if calculatedMobil \<noteq> total_available_mobil dataStats
                then [Stat_available_mismatch Mobil calculatedMobil
                        (total_available_mobil dataStats)]
                else [])
             @ (if calculatedMotor \<noteq> total_available_motor dataStats
                then [Stat_available_mismatch Motor calculatedMotor
                        (total_available_motor dataStats)]
                else [])))
      | other \<Rightarrow> Inl TypeError)"

text \<open>The pattern \<open>/^\d+\.\d+\.\d+$/\<close>: three non-empty runs of digits with a dot
  between them.\<close>

definition digits :: "string \<Rightarrow> bool" where
  "digits s = (s \<noteq> [] \<and> list_all (\<lambda>c. c \<in> set ''0123456789'') s)"

fun split_dots :: "string \<Rightarrow> string \<Rightarrow> string list" where
  "split_dots acc [] = [rev acc]"
| "split_dots acc (c # cs) =
     (if c = CHR ''.'' then rev acc # split_dots [] cs else split_dots (c # acc) cs)"

definition version_format :: "string \<Rightarrow> bool" where
  "version_format s = (case split_dots [] s of [a, b, c] \<Rightarrow> digits a \<and> digits b \<and> digits c
                        | other \<Rightarrow> False)"

text \<open>\<open>!metadata[field]\<close> for a text member and for the count.\<close>

definition no_text :: "string option \<Rightarrow> bool" where
  "no_text v = (v = None \<or> v = Some [])"

definition verifyMetadata :: "raw_data \<Rightarrow> js_error + check_issue list" where
  "verifyMetadata data =
     (case rd_metadata data of
        None \<Rightarrow> Inl TypeError
      | Some md \<Rightarrow>
          (case rd_locations data of
             None \<Rightarrow> Inl TypeError
           | Some dls \<Rightarrow>
               Inr ((if no_text (last_updated md) then [Missing_metadata_field ''last_updated''] else [])
                 @ (if no_text (version md) then [Missing_metadata_field ''version''] else [])
                 @ (if total_locations md = None \<or> total_locations md = Some 0
                    then [Missing_metadata_field ''total_locations''] else [])
                 @ (if no_text (operation_name md) then [Missing_metadata_field ''operation_name'']
                    else [])
                 @ (case version md of
                      None \<Rightarrow> []
                    | Some v \<Rightarrow> if v \<noteq> [] \<and> \<not> version_format v then [Invalid_version_format v]
                               else [])
                 @ (if total_locations md \<noteq> Some (int (length dls))
                    then [Total_locations_mismatch (total_locations md) (length dls)] else []))))"

record check_result =
  check_name :: string
  passed :: bool
  check_issues :: "check_issue list"

definition mk_check :: "string \<Rightarrow> check_issue list \<Rightarrow> check_result" where
  "mk_check n is = \<lparr>check_name = n, passed = (is = []), check_issues = is\<rparr>"

text \<open>
  How a call of \<open>run\<close> ends: \<open>process.exit(1)\<close> when a file did not load, the returned
  object (its \<open>success\<close> and \<open>results\<close>), or a rejected promise when a check raised.
\<close>

datatype run_outcome =
    Exited nat
  | Returned bool "check_result list"
  | Rejected js_error

definition verifier_run :: "raw_config option \<Rightarrow> raw_data option \<Rightarrow> run_outcome" where
  "verifier_run config_file data_file =
     (case (config_file, data_file) of
        (Some config, Some data) \<Rightarrow>
          (let r1 = mk_check ''file_structure'' (verifyStructure config data);
               r2 = mk_check ''location_count'' (verifyLocationCount config data)
           in case verifyIndividualLocations config data of
                Inl e \<Rightarrow> Rejected e
              | Inr locationIssues \<Rightarrow>
                  (case verifyTotalStatistics config data of
                     Inl e \<Rightarrow> Rejected e
                   | Inr statsIssues \<Rightarrow>
                       (case verifyMetadata data of
                          Inl e \<Rightarrow> Rejected e
                        | Inr metadataIssues \<Rightarrow>
                            (let results = [r1, r2,
                                   mk_check ''individual_locations'' locationIssues,
                                   mk_check ''total_statistics'' statsIssues,
                                   mk_check ''metadata'' metadataIssues]
                             in Returned (list_all passed results) results))))
      | other \<Rightarrow> Exited 1)"

text \<open>
  The entry point without \<open>--quick\<close>: \<open>verifier.run()\<close>, whose result is not looked
  at.  The process ends with the code of \<open>process.exit\<close>, with 0 when \<open>run\<close> returns,
  and with 1 for the promise nobody handles (the default of the host since version 15).
\<close>

definition main_exit_code :: "raw_config option \<Rightarrow> raw_data option \<Rightarrow> nat" where
  "main_exit_code config_file data_file =
     (case verifier_run config_file data_file of
        Exited n \<Rightarrow> n
      | Returned success results \<Rightarrow> 0
      | Rejected e \<Rightarrow> 1)"

text \<open>Example: a Configuration with one location and a Data document with none.\<close>

definition one_location_config :: raw_config where
  "one_location_config =
     \<lparr>rc_locations = Some [senopati_entry],
      rc_total_capacity = Some \<lparr>tc_bus = 62, tc_mobil = 200, tc_motor = 0, tc_total = 262\<rparr>\<rparr>"

definition no_location_data :: raw_data where
  "no_location_data =
     \<lparr>rd_locations = Some [],
      rd_statistics = Some \<lparr>total_bus_capacity = 0, total_mobil_capacity = 0,
        total_motor_capacity = 0, total_available_bus = 0, total_available_mobil = 0,
        total_available_motor = 0, last_recalculated = None, recalculated_by = None,
        stats_version = None\<rparr>,
      rd_metadata = Some \<lparr>last_updated = Some ''2026-04-20T00:00:00.000Z'',
        version = Some ''2.0.0'', total_locations = Some 0,
        operation_name = Some ''Ops Ketupat Progo 2026'', md_last_config_sync = None,
        md_config_version = None, sync_type = None\<rparr>\<rparr>"

section \<open>Pending-updates validation (validate-updates.js)\<close>

text \<open>Texts of the host: white space, \<open>trim\<close>, \<open>toUpperCase\<close> and the removal of white
  space (on the characters of ASCII), and \<open>String(n)\<close> of an integer.\<close>

definition is_space :: "char \<Rightarrow> bool" where
  "is_space c = (c \<in> set [CHR '' '', CHR 0x09, CHR 0x0A, CHR 0x0B, CHR 0x0C, CHR 0x0D])"



definition digit_char :: "nat \<Rightarrow> char" where
  "digit_char d = ''0123456789'' ! (d mod 10)"

function show_nat :: "nat \<Rightarrow> string" where
  "show_nat n = (if n < 10 then [digit_char n] else show_nat (n div 10) @ [digit_char (n mod 10)])"
  by pat_completeness auto
termination
  by (relation "measure id") auto

definition show_int :: "int \<Rightarrow> string" where
  "show_int i = (if i < 0 then CHR ''-'' # show_nat (nat (- i)) else show_nat (nat i))"

text \<open>\<open>parseInt\<close> of a text: white space, a sign, then hexadecimal digits after
  \<open>0x\<close> or decimal digits; \<open>None\<close> is \<open>NaN\<close>.\<close>

fun digit_value :: "string \<Rightarrow> char \<Rightarrow> nat option" where
  "digit_value [] c = None"
| "digit_value (d # ds) c =
     (if c = d then Some 0 else map_option Suc (digit_value ds c))"

definition hex_value :: "char \<Rightarrow> nat option" where
  "hex_value c =
     (case digit_value ''0123456789abcdef'' c of
        Some v \<Rightarrow> Some v
      | None \<Rightarrow> map_option (\<lambda>v. v + 10) (digit_value ''ABCDEF'' c))"

fun read_digits :: "nat \<Rightarrow> (char \<Rightarrow> nat option) \<Rightarrow> nat option \<Rightarrow> string \<Rightarrow> nat option" where
  "read_digits base val acc [] = acc"
| "read_digits base val acc (c # cs) =
     (case val c of
        None \<Rightarrow> acc
      | Some d \<Rightarrow> read_digits base val
                    (Some ((case acc of None \<Rightarrow> 0 | Some a \<Rightarrow> a) * base + d)) cs)"

definition parse_magnitude :: "string \<Rightarrow> nat option" where
  "parse_magnitude s =
     (if starts_with ''0x'' s \<or> starts_with ''0X'' s
      then read_digits 16 hex_value None (drop 2 s)
      else read_digits 10 (digit_value ''0123456789'') None s)"

definition parse_int_text :: "string \<Rightarrow> int option" where
  "parse_int_text s =
     (case dropWhile is_space s of
        [] \<Rightarrow> None
      | c # cs \<Rightarrow>
          if c = CHR ''-'' then map_option (\<lambda>n. - int n) (parse_magnitude cs)
          else if c = CHR ''+'' then map_option int (parse_magnitude cs)
          else map_option int (parse_magnitude (c # cs)))"

text \<open>\<open>parseInt(value)\<close>: an integer is itself; a text is parsed; of an array the text
  starts with its first element; anything else gives \<open>NaN\<close>.\<close>

fun parseInt :: "json \<Rightarrow> int option" where
  "parseInt (JNum n) = Some n"
| "parseInt (JStr s) = parse_int_text s"
| "parseInt (JArr []) = None"
| "parseInt (JArr (JNull # xs)) = None"
| "parseInt (JArr (x # xs)) = parseInt x"
| "parseInt v = None"

text \<open>\<open>String(value)\<close>, the key under which \<open>locationMap[value]\<close> looks.\<close>

fun js_string :: "json \<Rightarrow> string"
  and join_elems :: "json list \<Rightarrow> string" where
  "js_string JNull = ''null''"
| "js_string (JBool b) = (if b then ''true'' else ''false'')"
| "js_string (JNum n) = show_int n"
| "js_string (JStr s) = s"
| "js_string (JArr xs) = join_elems xs"
| "js_string (JObj kvs) = ''[object Object]''"
| "join_elems [] = []"
| "join_elems [x] = (if x = JNull then [] else js_string x)"
| "join_elems (x # y # ys) = (if x = JNull then [] else js_string x) @ '','' @ join_elems (y # ys)"

text \<open>What the host decides: the clock, whether \<open>new Date(value)\<close> is a valid date and
  whether it lies in the future, and the \<open>--strict\<close> flag of the command line.\<close>

record host =
  h_now :: string
  date_valid :: "json \<Rightarrow> bool"
  date_future :: "json \<Rightarrow> bool"
  strict :: bool

text \<open>An entry of \<open>locationMap\<close>.\<close>

record location_info =
  li_nama :: string
  li_code :: string
  li_capacity :: "vehicle \<Rightarrow> int"
  li_configCapacity :: "(vehicle \<Rightarrow> int option) option"






datatype u_error =
    Bad_location_id
  | Bad_petugas_name
  | Unknown_location json
  | Bad_vehicle_value vehicle
  | Bad_timestamp

datatype u_warning =
    Exceeds_capacity vehicle int int
  | Future_timestamp
  | Notes_too_long

text \<open>The member names of the three vehicle values.\<close>

fun vkey :: "vehicle \<Rightarrow> string" where
  "vkey Bus = ''bus''"
| "vkey Mobil = ''mobil''"
| "vkey Motor = ''motor''"

text \<open>The state of one turn of \<open>updates.forEach\<close>: the update (which the turn changes in
  place), the errors and the warnings.\<close>

record turn =
  t_update :: json
  t_errors :: "u_error list"
  t_warnings :: "u_warning list"

text \<open>\<open>update.bus = maxCapacity\<close> and \<open>update.notes = ...\<close>: the update is an object
  when these run.\<close>

definition assign :: "string \<Rightarrow> json \<Rightarrow> json \<Rightarrow> json" where
  "assign k v u = (case u of JObj kvs \<Rightarrow> JObj (set_member k v kvs) | other \<Rightarrow> other)"

text \<open>One of the three blocks \<open>if (update.bus !== undefined) {...}\<close>.\<close>

definition check_vehicle :: "host \<Rightarrow> location_info option \<Rightarrow> turn \<Rightarrow> vehicle \<Rightarrow> turn" where
  "check_vehicle h locationInfo t v =
     (case get_member (t_update t) (vkey v) of
        Inr (Some x) \<Rightarrow>
          (case parseInt x of
             None \<Rightarrow> t\<lparr>t_errors := t_errors t @ [Bad_vehicle_value v]\<rparr>
           | Some busValue \<Rightarrow>
               if busValue < 0 then t\<lparr>t_errors := t_errors t @ [Bad_vehicle_value v]\<rparr>
               else
                 (case locationInfo of
                    None \<Rightarrow> t
                  | Some info \<Rightarrow>
                      (let maxCapacity =
                             or_num (case li_configCapacity info of
                                       None \<Rightarrow> 0 | Some cc \<Rightarrow> cap_or0 (cc v))
                                    (li_capacity info v)
                       in if maxCapacity > 0 \<and> busValue > maxCapacity
                          then t\<lparr>t_warnings := t_warnings t
                                   @ [Exceeds_capacity v busValue maxCapacity],
                                 t_update := (if strict h then t_update t
                                              else assign (vkey v) (JNum maxCapacity) (t_update t))\<rparr>
                          else t)))
      | other \<Rightarrow> t)"

















text \<open>A vehicle value of an update that is absent or parses to a number that is not
  negative.\<close>

definition value_ok :: "json \<Rightarrow> vehicle \<Rightarrow> bool" where
  "value_ok u v =
     (case opt_member (Some u) (vkey v) of
        None \<Rightarrow> True
      | Some x \<Rightarrow> (case parseInt x of None \<Rightarrow> False | Some k \<Rightarrow> 0 \<le> k))"






section \<open>Properties of the calculator\<close>






section \<open>Statistics Fixer: properties\<close>





lemma issues_of_nama:
  "e \<in> set (issues_of cm l) \<Longrightarrow> about nm v e \<Longrightarrow> nama l = nm"
  by (auto simp: issues_of_def check_location_def mismatch_issue_def exceeds_issue_def
      split: option.splits if_splits)

lemma filter_issues_other:
  assumes "\<forall>l \<in> set ls. nama l \<noteq> nm"
  shows "filter (about nm v) (concat (map (issues_of cm) ls)) = []"
  using assms issues_of_nama by (fastforce simp: filter_empty_conv)

lemma clamp_block_idem: "clamp_block (clamp_block b) = clamp_block b"
  by (simp add: clamp_block_def)

lemma check_location_again:
  assumes "check_location cm l = Inr (is, l')"
  shows "\<exists>js. check_location cm l' = Inr (js, l')"
  using assms
  by (auto simp: check_location_def clamp_block_idem split: option.splits)

lemma check_locations_again:
  "check_locations cm ls = Inr (is, ls') \<Longrightarrow> \<exists>js. check_locations cm ls' = Inr (js, ls')"
proof (induction ls arbitrary: "is" ls')
  case Nil
  then show ?case by simp
next
  case (Cons l ls)
  from Cons.prems obtain i1 l1 i2 ls2 where
    a: "check_location cm l = Inr (i1, l1)" and b: "check_locations cm ls = Inr (i2, ls2)"
    and c: "ls' = l1 # ls2"
    by (auto split: sum.splits)
  from check_location_again [OF a] obtain j1 where "check_location cm l1 = Inr (j1, l1)" ..
  moreover from Cons.IH [OF b] obtain j2 where "check_locations cm ls2 = Inr (j2, ls2)" ..
  ultimately show ?case using c by simp
qed

lemma fix_again: "same_but_stamp (fixMainStatistics t2 (fixMainStatistics t1 d)) (fixMainStatistics t1 d)"
  by (simp add: same_but_stamp_def fixMainStatistics_def Let_def)

text \<open>
  C6 (as amended).  Running the Statistics Fixer twice in succession leaves, after the
  second run, the Data file of the first run except for the stamp
  \<open>statistics.last_recalculated\<close>, which each run sets to its own clock reading:
  metadata, locations and every other member of the statistics are the same.
\<close>

theorem C6_rerun_same_but_stamp:
  "same_but_stamp (file_after_run config t2 (file_after_run config t1 data))
     (file_after_run config t1 data)"
proof (cases "check_locations (configMap config) (locations data)")
  case (Inl e)
  then show ?thesis
    by (simp add: file_after_run_def run_def checkConsistency_def same_but_stamp_def)
next
  case (Inr p)
  obtain i1 ls1 where p: "p = (i1, ls1)" by (cases p)
  from check_locations_again [of "configMap config" "locations data" i1 ls1] Inr p
  obtain j where j: "check_locations (configMap config) ls1 = Inr (j, ls1)" by auto
  have 1: "file_after_run config t1 data = fixMainStatistics t1 (data\<lparr>locations := ls1\<rparr>)"
    using Inr p by (simp add: file_after_run_def run_def checkConsistency_def)
  have 2: "locations (fixMainStatistics t1 (data\<lparr>locations := ls1\<rparr>)) = ls1"
    by (simp add: fixMainStatistics_def Let_def)
  have 3: "file_after_run config t2 (fixMainStatistics t1 (data\<lparr>locations := ls1\<rparr>))
      = fixMainStatistics t2 (fixMainStatistics t1 (data\<lparr>locations := ls1\<rparr>))"
    using j 2 by (simp add: file_after_run_def run_def checkConsistency_def fixMainStatistics_def Let_def)
  show ?thesis unfolding 1 3 by (rule fix_again)
qed




lemma senopati_configMap:
  "configMap senopati_config ''SENOPATI'' =
     Some (mk_config_location 1 ''SENOPATI'' ''SENOPATI'' (Some 62) (Some 200) (Some 0))"
  by (simp add: configMap_def senopati_config_def mk_config_def mk_config_location_def)


text \<open>
  C6 as stated fails: a second run one second later writes a document that is not the
  document of the first run (the stamp differs).
\<close>

theorem C6_rerun_differs_in_stamp:
  "file_after_run senopati_config ''2026-04-20T00:00:02.000Z'' (file_after_run senopati_config ''2026-04-20T00:00:01.000Z'' senopati_data)
     \<noteq> file_after_run senopati_config ''2026-04-20T00:00:01.000Z'' senopati_data"
  by (simp add: file_after_run_def run_def checkConsistency_def senopati_configMap
      senopati_data_def mk_data_def mk_location_def blk_def check_location_def
      mk_config_location_def fixMainStatistics_def Let_def clamp_block_def)

section \<open>Config Synchronizer: properties\<close>

lemma sync_vehicle_nama: "nama (fst (sync_vehicle now c acc v)) = nama (fst acc)"
  by (cases v) (simp_all add: sync_vehicle_def Let_def)

lemma sync_vehicle_total:
  "total_or0 (block (fst (sync_vehicle now c acc v)) v) = cap_or0 (capacity c v)"
  by (cases v) (simp_all add: sync_vehicle_def Let_def total_or0_def)

lemma sync_vehicle_other:
  "w \<noteq> v \<Longrightarrow> block (fst (sync_vehicle now c acc v)) w = block (fst acc) w"
  by (cases v; cases w) (simp_all add: sync_vehicle_def Let_def)

lemma sync_location_fst:
  "fst (sync_location now ver c l) =
     (fst (sync_vehicle now c (sync_vehicle now c (sync_vehicle now c
        (l\<lparr>alamat := address c, koordinat := coordinates c, status := cfg_status c\<rparr>, 
         (if alamat l \<noteq> address c then [UAddress (alamat l) (address c)] else [])
         @ (if koordinat l \<noteq> coordinates c then [UCoordinates (koordinat l) (coordinates c)] else [])
         @ (if status l \<noteq> cfg_status c then [UStatus (status l) (cfg_status c)] else [])) Bus) Mobil) Motor))
     \<lparr>operational_hours := cfg_operational_hours c, last_config_sync := Some now,
       config_version := Some ver\<rparr>"
  by (simp add: sync_location_def Let_def split: prod.splits)

lemma sync_location_nama: "nama (fst (sync_location now ver c l)) = nama l"
  by (simp add: sync_location_fst sync_vehicle_nama)

lemma sync_location_agree: "agree c (fst (sync_location now ver c l))"
proof -
  let ?a0 = "(l\<lparr>alamat := address c, koordinat := coordinates c, status := cfg_status c\<rparr>, 
         (if alamat l \<noteq> address c then [UAddress (alamat l) (address c)] else [])
         @ (if koordinat l \<noteq> coordinates c then [UCoordinates (koordinat l) (coordinates c)] else [])
         @ (if status l \<noteq> cfg_status c then [UStatus (status l) (cfg_status c)] else []))"
  let ?a1 = "sync_vehicle now c ?a0 Bus"
  let ?a2 = "sync_vehicle now c ?a1 Mobil"
  let ?a3 = "sync_vehicle now c ?a2 Motor"
  have b: "total_or0 (block (fst ?a3) Bus) = cap_or0 (capacity c Bus)"
    using sync_vehicle_other [of Bus Motor now c ?a2] sync_vehicle_other [of Bus Mobil now c ?a1]
      sync_vehicle_total [of now c ?a0 Bus] by simp
  have m: "total_or0 (block (fst ?a3) Mobil) = cap_or0 (capacity c Mobil)"
    using sync_vehicle_other [of Mobil Motor now c ?a2] sync_vehicle_total [of now c ?a1 Mobil]
    by simp
  have r: "total_or0 (block (fst ?a3) Motor) = cap_or0 (capacity c Motor)"
    using sync_vehicle_total [of now c ?a2 Motor] by simp
  show ?thesis using b m r by (simp add: agree_def sync_location_fst)
qed

lemma update_first_map:
  "(\<And>x. P x \<Longrightarrow> g (f x) = g x) \<Longrightarrow> map g (update_first P f xs) = map g xs"
  by (induction xs) auto

lemma update_first_set:
  "y \<in> set (update_first P f xs) \<Longrightarrow> y \<in> set xs \<or> (\<exists>x \<in> set xs. P x \<and> y = f x)"
  by (induction xs) (auto split: if_splits)

lemma update_first_find_same:
  "find P xs = Some c \<Longrightarrow> update_first P (\<lambda>l. c) xs = xs"
  by (induction xs) (auto split: if_splits)

lemma find_Some_set: "find P xs = Some x \<Longrightarrow> x \<in> set xs \<and> P x"
  by (induction xs) (auto split: if_splits)

lemma find_None_set: "find P xs = None \<Longrightarrow> x \<in> set xs \<Longrightarrow> \<not> P x"
  by (induction xs) (auto split: if_splits)

lemma step_nama:
  "map nama (ss_locations (sync_step now ver st c)) = map nama (ss_locations st)"
proof (cases "find (\<lambda>l. nama l = name c) (ss_locations st)")
  case None
  then show ?thesis by (simp add: sync_step_def)
next
  case (Some d)
  have "nama (fst (sync_location now ver c d)) = nama d" by (rule sync_location_nama)
  moreover have "nama d = name c" using find_Some_set [OF Some] by simp
  ultimately show ?thesis using Some
    by (auto simp: sync_step_def Let_def split: prod.splits intro!: update_first_map)
qed

lemma step_other:
  assumes "l \<in> set (ss_locations (sync_step now ver st c))" "nama l \<noteq> name c"
  shows "l \<in> set (ss_locations st)"
proof (cases "find (\<lambda>l. nama l = name c) (ss_locations st)")
  case None
  then show ?thesis using assms by (simp add: sync_step_def)
next
  case (Some d)
  have n: "nama (fst (sync_location now ver c d)) = name c"
    using sync_location_nama [of now ver c d] find_Some_set [OF Some] by simp
  from assms(1) Some have
    "l \<in> set (update_first (\<lambda>l. nama l = name c) (\<lambda>l. fst (sync_location now ver c d))
        (ss_locations st))"
    by (auto simp: sync_step_def Let_def split: prod.splits)
  from update_first_set [OF this] show ?thesis using assms(2) n by auto
qed

lemma step_agree:
  assumes "l \<in> set (ss_locations (sync_step now ver st c))" "nama l = name c"
      and "distinct (map nama (ss_locations st))"
  shows "agree c l"
proof (cases "find (\<lambda>l. nama l = name c) (ss_locations st)")
  case None
  then have "l \<in> set (ss_locations st)" using assms(1) by (simp add: sync_step_def)
  from find_None_set [OF None this] assms(2) show ?thesis by simp
next
  case (Some d)
  let ?l' = "fst (sync_location now ver c d)"
  let ?P = "\<lambda>l. nama l = name c"
  have in_upd: "l \<in> set (update_first ?P (\<lambda>l. ?l') (ss_locations st))"
    using assms(1) Some by (auto simp: sync_step_def Let_def split: prod.splits)
  have "l = ?l'"
  proof (rule ccontr)
    assume ne: "l \<noteq> ?l'"
    have "\<And>xs. distinct (map nama xs) \<Longrightarrow> l \<in> set (update_first ?P (\<lambda>l. ?l') xs) \<Longrightarrow> False"
    proof -
      fix xs show "distinct (map nama xs) \<Longrightarrow> l \<in> set (update_first ?P (\<lambda>l. ?l') xs) \<Longrightarrow> False"
      proof (induction xs)
        case Nil
        then show ?case by simp
      next
        case (Cons x xs)
        show ?case
        proof (cases "?P x")
          case True
          with Cons.prems ne have "l \<in> set xs" by auto
          then have "nama l \<in> set (map nama xs)" by simp
          with Cons.prems(1) True assms(2) show False by auto
        next
          case False
          with Cons.prems assms(2) have "l \<in> set (update_first ?P (\<lambda>l. ?l') xs)" by auto
          with Cons show False by simp
        qed
      qed
    qed
    from this [OF assms(3) in_upd] show False .
  qed
  then show ?thesis using sync_location_agree by simp
qed

lemma fold_nama:
  "map nama (ss_locations (foldl (sync_step now ver) st cs)) = map nama (ss_locations st)"
  by (induction cs arbitrary: st) (simp_all add: step_nama)

lemma fold_other:
  "l \<in> set (ss_locations (foldl (sync_step now ver) st cs)) \<Longrightarrow>
   \<forall>c \<in> set cs. name c \<noteq> nama l \<Longrightarrow> l \<in> set (ss_locations st)"
proof (induction cs arbitrary: st)
  case Nil
  then show ?case by simp
next
  case (Cons c cs)
  from Cons.prems have "l \<in> set (ss_locations (sync_step now ver st c))"
    using Cons.IH [of "sync_step now ver st c"] by simp
  then show ?case using step_other Cons.prems(2) by fastforce
qed

lemma fold_synced:
  assumes "distinct (map nama (ss_locations st))" "distinct (map name cs)"
      and "c \<in> set cs" "l \<in> set (ss_locations (foldl (sync_step now ver) st cs))"
      and "nama l = name c"
  shows "agree c l"
  using assms
proof (induction cs arbitrary: st)
  case Nil
  then show ?case by simp
next
  case (Cons a cs)
  let ?st = "sync_step now ver st a"
  have d: "distinct (map nama (ss_locations ?st))" using Cons.prems(1) by (simp add: step_nama)
  have l: "l \<in> set (ss_locations (foldl (sync_step now ver) ?st cs))" using Cons.prems(4) by simp
  show ?case
  proof (cases "c = a")
    case True
    have "name a \<notin> set (map name cs)" using Cons.prems(2) by simp
    then have "\<forall>c' \<in> set cs. name c' \<noteq> name a" by (metis image_eqI list.set_map)
    then have "\<forall>c' \<in> set cs. name c' \<noteq> nama l" using Cons.prems(5) True by simp
    from fold_other [OF l this] have "l \<in> set (ss_locations ?st)" .
    from step_agree [OF this _ Cons.prems(1)] Cons.prems(5) True show ?thesis by simp
  next
    case False
    then have "c \<in> set cs" using Cons.prems(3) by simp
    from Cons.IH [OF d _ this l Cons.prems(5)] Cons.prems(2) show ?thesis by simp
  qed
qed

lemma back_vehicle_agree:
  assumes "agree c l"
  shows "foldl (back_vehicle l) (Inr (c, [])) [Bus, Mobil, Motor] = Inr (c, [])"
  using assms by (simp add: back_vehicle_def agree_def Let_def)

lemma back_fold_unchanged:
  assumes "\<forall>c \<in> set (bs_locations st). \<forall>l \<in> set ls. nama l = name c \<longrightarrow> agree c l"
  shows "\<exists>st'. foldl back_step (Inr st) ls = Inr st' \<and> bs_locations st' = bs_locations st"
  using assms
proof (induction ls arbitrary: st)
  case Nil
  then show ?case by simp
next
  case (Cons l ls)
  have "\<exists>st1. back_step (Inr st) l = Inr st1 \<and> bs_locations st1 = bs_locations st"
  proof (cases "find (\<lambda>c. name c = nama l) (bs_locations st)")
    case None
    then show ?thesis by (simp add: back_step_def)
  next
    case (Some c)
    from find_Some_set [OF Some] Cons.prems have "agree c l" by auto
    from back_vehicle_agree [OF this] Some update_first_find_same [OF Some]
    show ?thesis by (simp add: back_step_def)
  qed
  then obtain st1 where 1: "back_step (Inr st) l = Inr st1" "bs_locations st1 = bs_locations st"
    by blast
  from Cons.IH [of st1] Cons.prems 1 show ?case by simp
qed

lemma pass2_locations:
  assumes "\<forall>c \<in> set (cfg_locations config). \<forall>l \<in> set (locations data).
      nama l = name c \<longrightarrow> agree c l"
  shows "cfg_locations (config_after_pass2 config now data) = cfg_locations config"
proof -
  from back_fold_unchanged [of "\<lparr>bs_locations = cfg_locations config, bs_updates = [], bs_errors = []\<rparr>"
      "locations data"] assms
  obtain st' where "foldl back_step
      (Inr \<lparr>bs_locations = cfg_locations config, bs_updates = [], bs_errors = []\<rparr>) (locations data)
      = Inr st'" "bs_locations st' = cfg_locations config" by auto
  then show ?thesis
    by (simp add: config_after_pass2_def syncDataToConfig_def split: sum.splits)
qed

lemma validate_location_agree:
  assumes "\<forall>l \<in> set ls. nama l = name c \<longrightarrow> agree c l"
  shows "filter is_capacity_diff (validate_location ls c) = []"
proof (cases "find (\<lambda>l. nama l = name c) ls")
  case None
  then show ?thesis by (simp add: validate_location_def)
next
  case (Some d)
  from find_Some_set [OF Some] assms have "agree c d" by auto
  then show ?thesis using Some
    by (simp add: validate_location_def capacity_checks_def agree_def Let_def)
qed

lemma validateSync_agree:
  assumes "\<forall>c \<in> set (cfg_locations config). \<forall>l \<in> set (locations data).
      nama l = name c \<longrightarrow> agree c l"
  shows "filter is_capacity_diff (validateSync config data) = []"
proof -
  have "filter is_capacity_diff
      (concat (map (validate_location (locations data)) (cfg_locations config))) = []"
    using assms validate_location_agree by (fastforce simp: filter_empty_conv)
  then show ?thesis by (simp add: validateSync_def)
qed

lemma pass1_locations:
  "locations (data_after_pass1 config now data) =
     ss_locations (foldl (sync_step now (cfg_version config))
       \<lparr>ss_locations = locations data, ss_updates = [], ss_errors = []\<rparr> (cfg_locations config))"
  by (simp add: data_after_pass1_def syncConfigToData_def Let_def)

text \<open>
  C4 (as amended).  When no two locations of the Data document share a \<open>nama\<close> and no
  two entries of the Configuration share a \<open>name\<close>, the Config\<rightarrow>Data pass followed by
  the Data\<rightarrow>Config pass leaves files on which \<open>validateSync\<close> reports no capacity
  inconsistency for any location matched by name.
\<close>

theorem C4_sync_then_validate:
  assumes "distinct (map nama (locations data))" "distinct (map name (cfg_locations config))"
  shows "filter is_capacity_diff
      (validateSync (config_after_pass2 config t2 (data_after_pass1 config t1 data))
         (data_after_pass1 config t1 data)) = []"
proof -
  let ?d1 = "data_after_pass1 config t1 data"
  have synced: "\<forall>c \<in> set (cfg_locations config). \<forall>l \<in> set (locations ?d1).
      nama l = name c \<longrightarrow> agree c l"
    using fold_synced [of "\<lparr>ss_locations = locations data, ss_updates = [], ss_errors = []\<rparr>"
        "cfg_locations config" _ _ t1 "cfg_version config"] assms
    by (simp add: pass1_locations)
  have "cfg_locations (config_after_pass2 config t2 ?d1) = cfg_locations config"
    by (rule pass2_locations [OF synced])
  with synced show ?thesis by (intro validateSync_agree) simp
qed

text \<open>The hypotheses of C4 hold for a Configuration that declares \<open>bus.total = 62\<close> where
  the Data document has 50.\<close>

theorem C4_sync_then_validate_witness:
  "distinct (map nama (locations drift_data)) \<and> distinct (map name (cfg_locations senopati_config)) \<and>
   filter is_capacity_diff
      (validateSync
         (config_after_pass2 senopati_config ''2026-04-20T00:00:02.000Z''
            (data_after_pass1 senopati_config ''2026-04-20T00:00:01.000Z'' drift_data))
         (data_after_pass1 senopati_config ''2026-04-20T00:00:01.000Z'' drift_data)) = []"
proof -
  have 1: "distinct (map nama (locations drift_data))"
    by (simp add: drift_data_def mk_data_def)
  have 2: "distinct (map name (cfg_locations senopati_config))"
    by (simp add: senopati_config_def mk_config_def)
  show ?thesis using 1 2 C4_sync_then_validate [OF 1 2] by simp
qed

text \<open>
  C4 as stated fails when two Data locations share a name: the first pass brings the first
  of them to the Configuration's capacity, the second pass copies the capacity of the
  second one into the Configuration, and \<open>validateSync\<close> then compares the entry with
  the first one again.
\<close>

theorem C4_duplicate_names_counterexample:
  "filter is_capacity_diff
      (validateSync (config_after_pass2 twin_config ''2026-04-20T00:00:02.000Z'' (data_after_pass1 twin_config ''2026-04-20T00:00:01.000Z'' twin_data))
         (data_after_pass1 twin_config ''2026-04-20T00:00:01.000Z'' twin_data)) = [CapacityDiff ''SENOPATI'' Bus 5 10]"
  by (simp add: validateSync_def validate_location_def capacity_checks_def
    config_after_pass2_def syncDataToConfig_def back_step_def back_vehicle_def
    calculateTotalCapacities_def totals_step_def
    data_after_pass1_def syncConfigToData_def
    twin_config_def twin_data_def mk_config_def mk_data_def
    mk_location_def mk_config_location_def blk_def sync_step_def sync_location_def
    sync_vehicle_def Let_def total_or0_def cap_or0_def)

section \<open>Invariant I1 and the corrections of the Fixer and the Validator\<close>















lemma or_num_simps [simp]: "or_num 0 b = b" "a \<noteq> 0 \<Longrightarrow> or_num a b = a"
  by (simp_all add: or_num_def)

lemma or_num_self: "or_num a a = a" by (simp add: or_num_def)















text \<open>
  When the validator rewrites a total it still compares \<open>available\<close> with the total it
  parsed before: with \<open>bus: {total: 80, available: 70}\<close> and capacity 62 the block
  becomes \<open>{total: 62, available: 70}\<close>.
\<close>

lemma validator_rewrite_slip:
  "block (snd (processVehicleType fix_vc (hd (locations crowded_data)) Bus (Some senopati_entry))) Bus
     = Some (blk 62 70)"
  by (simp add: processVehicleType_def Let_def crowded_data_def mk_data_def mk_location_def
      blk_def senopati_entry_def mk_config_location_def fix_vc_def config_capacity_def cap_or0_def
      parseNumber_def or_num_def)

lemma block_set_block: "block (set_block v x l) v = x"
  by (cases v) simp_all

lemma pvt_rewrite:
  assumes "block l v = Some b" "0 \<le> v_total b" "0 \<le> v_available b"
    and rw: "force vc \<or> mode vc = ''fix''" "0 < config_capacity cl v"
      "v_total b \<noteq> config_capacity cl v"
  shows "\<exists>b'. block (snd (processVehicleType vc l v cl)) v = Some b' \<and>
           v_total b' = config_capacity cl v"
    and "FixedTotal v (config_capacity cl v) \<in> set (snd (fst (processVehicleType vc l v cl)))"
    and "FixedAvailable (v_total b) \<in> set (snd (fst (processVehicleType vc l v cl)))
            \<longleftrightarrow> v_available b > v_total b"
proof -
  have t: "parseNumber (v_total b) = v_total b" and a: "parseNumber (v_available b) = v_available b"
    using assms by (simp_all add: parseNumber_def)
  have c: "config_capacity cl v \<noteq> 0" using rw(2) by simp
  show "\<exists>b'. block (snd (processVehicleType vc l v cl)) v = Some b' \<and>
           v_total b' = config_capacity cl v"
    using assms(1) rw c
    by (simp add: processVehicleType_def Let_def t a block_set_block)
  show "FixedTotal v (config_capacity cl v) \<in> set (snd (fst (processVehicleType vc l v cl)))"
    using assms(1) rw c
    by (simp add: processVehicleType_def Let_def t a)
  show "FixedAvailable (v_total b) \<in> set (snd (fst (processVehicleType vc l v cl)))
            \<longleftrightarrow> v_available b > v_total b"
    using assms(1) rw c
    by (simp add: processVehicleType_def Let_def t a)
qed


lemma or_num_clamp: "0 \<le> t \<Longrightarrow> or_num (if a > t then t else a) (min a t) = min a t"
  by (simp add: or_num_def min_def)

lemma pvt_keep:
  assumes "block l v = Some b" "0 \<le> v_total b" "0 \<le> v_available b"
    and nrw: "\<not> ((force vc \<or> mode vc = ''fix'') \<and> 0 < config_capacity cl v
        \<and> v_total b \<noteq> config_capacity cl v)"
  shows "block (snd (processVehicleType vc l v cl)) v =
           Some (b\<lparr>v_available := min (v_available b) (v_total b)\<rparr>)"
    and "FixedTotal v (config_capacity cl v) \<notin> set (snd (fst (processVehicleType vc l v cl)))"
    and "FixedAvailable (v_total b) \<in> set (snd (fst (processVehicleType vc l v cl)))
            \<longleftrightarrow> v_available b > v_total b"
proof -
  have t: "parseNumber (v_total b) = v_total b" and a: "parseNumber (v_available b) = v_available b"
    using assms by (simp_all add: parseNumber_def)
  have oc: "or_num (if v_available b > v_total b then v_total b else v_available b)
      (min (v_available b) (v_total b)) = min (v_available b) (v_total b)"
    by (rule or_num_clamp [OF assms(2)])
  consider (mode) "\<not> force vc" "mode vc \<noteq> ''fix''"
    | (cap) "\<not> 0 < config_capacity cl v"
    | (same) "v_total b = config_capacity cl v"
    using nrw by blast
  then have "block (snd (processVehicleType vc l v cl)) v =
           Some (b\<lparr>v_available := min (v_available b) (v_total b)\<rparr>) \<and>
      FixedTotal v (config_capacity cl v) \<notin> set (snd (fst (processVehicleType vc l v cl))) \<and>
      (FixedAvailable (v_total b) \<in> set (snd (fst (processVehicleType vc l v cl)))
            \<longleftrightarrow> v_available b > v_total b)"
  proof cases
    case mode
    show ?thesis
    proof (cases "v_available b > v_total b")
      case True
      then show ?thesis using assms(1,2) mode oc
        by (simp add: processVehicleType_def Let_def t a block_set_block or_num_self)
    next
      case False
      then show ?thesis using assms(1,3) mode oc
        by (simp add: processVehicleType_def Let_def t a block_set_block or_num_self)
    qed
  next
    case cap
    show ?thesis
    proof (cases "v_available b > v_total b")
      case True
      then show ?thesis using assms(1,2) cap oc
        by (simp add: processVehicleType_def Let_def t a block_set_block or_num_self)
    next
      case False
      then show ?thesis using assms(1,3) cap oc
        by (simp add: processVehicleType_def Let_def t a block_set_block or_num_self)
    qed
  next
    case same
    show ?thesis
    proof (cases "v_available b > v_total b")
      case True
      then show ?thesis using assms(1,2) same [symmetric] oc
        by (simp add: processVehicleType_def Let_def t a block_set_block or_num_self)
    next
      case False
      then show ?thesis using assms(1,3) same [symmetric] oc
        by (simp add: processVehicleType_def Let_def t a block_set_block or_num_self)
    qed
  qed
  then show "block (snd (processVehicleType vc l v cl)) v =
           Some (b\<lparr>v_available := min (v_available b) (v_total b)\<rparr>)"
    and "FixedTotal v (config_capacity cl v) \<notin> set (snd (fst (processVehicleType vc l v cl)))"
    and "FixedAvailable (v_total b) \<in> set (snd (fst (processVehicleType vc l v cl)))
            \<longleftrightarrow> v_available b > v_total b"
    by simp_all
qed

lemma check_location_block:
  assumes "block l v = Some b" "cm (nama l) = Some c" "check_location cm l = Inr (is, l2)"
  shows "block l2 v = Some (b\<lparr>v_available := min (v_available b) (v_total b)\<rparr>)"
    and "AvailableExceeds (nama l) v (v_available b) (v_total b) \<in> set is
           \<longleftrightarrow> v_available b > v_total b"
proof -
  have cb: "clamp_block b = b\<lparr>v_available := min (v_available b) (v_total b)\<rparr>"
    by (simp add: clamp_block_def min_def)
  show "block l2 v = Some (b\<lparr>v_available := min (v_available b) (v_total b)\<rparr>)"
    using assms cb [symmetric]
    by (cases v) (auto simp: check_location_def split: option.splits)
  show "AvailableExceeds (nama l) v (v_available b) (v_total b) \<in> set is
           \<longleftrightarrow> v_available b > v_total b"
    using assms
    by (cases v)
       (auto simp: check_location_def mismatch_issue_def exceeds_issue_def
          split: option.splits if_splits)
qed

text \<open>
  C3 (as amended).  For a vehicle block whose stored \<open>total\<close> and \<open>available\<close> are not
  negative: \<open>processVehicleType\<close> rewrites \<open>total\<close> to the Configuration's capacity
  exactly when \<open>mode\<close> is \<open>fix\<close> or \<open>force\<close> is set, that capacity is positive and it
  differs from \<open>total\<close>, and records the fix entry for it exactly then; when it does not
  rewrite, \<open>available\<close> becomes \<open>min available total\<close>; the fix entry for a clamped
  \<open>available\<close> is recorded exactly when \<open>available\<close> was above \<open>total\<close>.  The
  Statistics Fixer of fix-statistics.js, for a location it finds in the Configuration,
  leaves \<open>total\<close> as it is, brings \<open>available\<close> down to \<open>min available total\<close> and
  records an issue entry exactly when \<open>available\<close> was above \<open>total\<close>.
\<close>

theorem C3_clamp_and_rewrite:
  assumes "block l v = Some b" "0 \<le> v_total b" "0 \<le> v_available b"
  shows "(\<forall>issues fxs l'. processVehicleType vc l v cl = ((issues, fxs), l') \<longrightarrow>
      (\<exists>b'. block l' v = Some b' \<and>
        (let cap = config_capacity cl v;
             rewrite = ((force vc \<or> mode vc = ''fix'') \<and> 0 < cap \<and> v_total b \<noteq> cap)
         in v_total b' = (if rewrite then cap else v_total b) \<and>
            (\<not> rewrite \<longrightarrow> v_available b' = min (v_available b) (v_total b)) \<and>
            (FixedTotal v cap \<in> set fxs \<longleftrightarrow> rewrite) \<and>
            (FixedAvailable (v_total b) \<in> set fxs \<longleftrightarrow> v_available b > v_total b)))) \<and>
    (\<forall>c is l2. cm (nama l) = Some c \<and> check_location cm l = Inr (is, l2) \<longrightarrow>
      block l2 v = Some (b\<lparr>v_available := min (v_available b) (v_total b)\<rparr>) \<and>
      (AvailableExceeds (nama l) v (v_available b) (v_total b) \<in> set is
         \<longleftrightarrow> v_available b > v_total b))"
proof (intro conjI allI impI)
  fix issues fxs l'
  assume eq: "processVehicleType vc l v cl = ((issues, fxs), l')"
  have l': "l' = snd (processVehicleType vc l v cl)"
    and f: "fxs = snd (fst (processVehicleType vc l v cl))"
    using eq by simp_all
  show "\<exists>b'. block l' v = Some b' \<and>
        (let cap = config_capacity cl v;
             rewrite = ((force vc \<or> mode vc = ''fix'') \<and> 0 < cap \<and> v_total b \<noteq> cap)
         in v_total b' = (if rewrite then cap else v_total b) \<and>
            (\<not> rewrite \<longrightarrow> v_available b' = min (v_available b) (v_total b)) \<and>
            (FixedTotal v cap \<in> set fxs \<longleftrightarrow> rewrite) \<and>
            (FixedAvailable (v_total b) \<in> set fxs \<longleftrightarrow> v_available b > v_total b))"
  proof (cases "(force vc \<or> mode vc = ''fix'') \<and> 0 < config_capacity cl v
        \<and> v_total b \<noteq> config_capacity cl v")
    case True
    then have rw: "force vc \<or> mode vc = ''fix''" "0 < config_capacity cl v"
      "v_total b \<noteq> config_capacity cl v" by simp_all
    from pvt_rewrite [OF assms(1-3) rw] True show ?thesis
      unfolding l' f Let_def by auto
  next
    case False
    from pvt_keep [OF assms(1-3) False] False show ?thesis
      unfolding l' f Let_def by simp
  qed
next
  fix c "is" l2
  assume "cm (nama l) = Some c \<and> check_location cm l = Inr (is, l2)"
  then show "block l2 v = Some (b\<lparr>v_available := min (v_available b) (v_total b)\<rparr>)"
    using check_location_block(1) [OF assms(1)] by blast
next
  fix c "is" l2
  assume "cm (nama l) = Some c \<and> check_location cm l = Inr (is, l2)"
  then show "AvailableExceeds (nama l) v (v_available b) (v_total b) \<in> set is
         \<longleftrightarrow> v_available b > v_total b"
    using check_location_block(2) [OF assms(1)] by blast
qed

text \<open>The hypotheses of C3 hold in the SENOPATI scenario.\<close>

theorem C3_clamp_and_rewrite_witness:
  "block senopati_loc Mobil = Some (blk 200 250) \<and> 0 \<le> v_total (blk 200 250) \<and>
   0 \<le> v_available (blk 200 250) \<and>
   (\<exists>b'. block (snd (processVehicleType strict_vc senopati_loc Mobil (Some senopati_entry))) Mobil
        = Some b' \<and> v_total b' = 200 \<and> v_available b' = 200) \<and>
   FixedAvailable 200 \<in> set (snd (fst (processVehicleType strict_vc senopati_loc Mobil
        (Some senopati_entry)))) \<and>
   (\<exists>is l2. check_location (configMap senopati_config) senopati_loc = Inr (is, l2) \<and>
      block l2 Mobil = Some (blk 200 200) \<and> AvailableExceeds ''SENOPATI'' Mobil 250 200 \<in> set is)"
proof -
  let ?p = "processVehicleType strict_vc senopati_loc Mobil (Some senopati_entry)"
  have 1: "block senopati_loc Mobil = Some (blk 200 250)"
    by (simp add: senopati_loc_def mk_location_def)
  have 2: "0 \<le> v_total (blk 200 250)" and 3: "0 \<le> v_available (blk 200 250)"
    by (simp_all add: blk_def)
  note inst = C3_clamp_and_rewrite [OF 1 2 3, of strict_vc "Some senopati_entry"
      "configMap senopati_config"]
  have cap: "config_capacity (Some senopati_entry) Mobil = 200"
    by (simp add: config_capacity_def senopati_entry_def mk_config_location_def cap_or0_def)
  have p: "?p = ((fst (fst ?p), snd (fst ?p)), snd ?p)" by simp
  from inst have "\<exists>b'. block (snd ?p) Mobil = Some b' \<and>
        (let cap = config_capacity (Some senopati_entry) Mobil;
             rewrite = ((force strict_vc \<or> mode strict_vc = ''fix'') \<and> 0 < cap
                \<and> v_total (blk 200 250) \<noteq> cap)
         in v_total b' = (if rewrite then cap else v_total (blk 200 250)) \<and>
            (\<not> rewrite \<longrightarrow> v_available b' = min (v_available (blk 200 250)) (v_total (blk 200 250))) \<and>
            (FixedTotal Mobil cap \<in> set (snd (fst ?p)) \<longleftrightarrow> rewrite) \<and>
            (FixedAvailable (v_total (blk 200 250)) \<in> set (snd (fst ?p))
               \<longleftrightarrow> v_available (blk 200 250) > v_total (blk 200 250)))"
    using p by blast
  then have A: "(\<exists>b'. block (snd ?p) Mobil = Some b' \<and> v_total b' = 200 \<and> v_available b' = 200)
      \<and> FixedAvailable 200 \<in> set (snd (fst ?p))"
    by (auto simp: cap Let_def strict_vc_def blk_def)
  have nm: "nama senopati_loc = ''SENOPATI''" by (simp add: senopati_loc_def mk_location_def)
  have cl: "\<exists>is l2. check_location (configMap senopati_config) senopati_loc = Inr (is, l2)"
    by (simp add: check_location_def senopati_configMap nm)
       (simp add: senopati_loc_def mk_location_def mk_config_location_def)
  then obtain "is" l2 where
    c: "check_location (configMap senopati_config) senopati_loc = Inr (is, l2)" by blast
  from inst senopati_configMap c nm have
    "block l2 Mobil = Some ((blk 200 250)\<lparr>v_available := min (v_available (blk 200 250))
        (v_total (blk 200 250))\<rparr>) \<and>
     (AvailableExceeds ''SENOPATI'' Mobil (v_available (blk 200 250)) (v_total (blk 200 250)) \<in> set is
         \<longleftrightarrow> v_available (blk 200 250) > v_total (blk 200 250))"
    by (metis (no_types, lifting))
  then have B: "block l2 Mobil = Some (blk 200 200) \<and>
      AvailableExceeds ''SENOPATI'' Mobil 250 200 \<in> set is"
    by (simp add: blk_def)
  show ?thesis using 1 2 3 A B c by blast
qed

text \<open>
  C3 as stated fails.  A negative \<open>available\<close> stays negative, without any entry, in the
  validator (\<open>parseNumber\<close> has already raised the compared value to 0) and in the
  Statistics Fixer (which has no such check); and in mode \<open>fix\<close> a total that differs
  from a declared capacity of 0 is not rewritten.
\<close>

theorem C3_negative_and_zero_capacity_counterexample:
  "processVehicleType fix_vc (hd (locations negative_data)) Bus (Some senopati_entry)
     = (([], []), hd (locations negative_data)) \<and>
   block (hd (locations negative_data)) Bus = Some (blk 62 (- 5)) \<and>
   locations (file_after_run senopati_config ''2026-04-20T00:00:01.000Z'' negative_data)
     = locations negative_data \<and>
   cap_motor senopati_entry = Some 0 \<and>
   processVehicleType fix_vc (hd (locations motor_data)) Motor (Some senopati_entry)
     = (([], []), hd (locations motor_data)) \<and>
   block (hd (locations motor_data)) Motor = Some (blk 40 10)"
  by (simp add: processVehicleType_def Let_def negative_data_def motor_data_def mk_data_def
      mk_location_def blk_def senopati_entry_def mk_config_location_def fix_vc_def
      config_capacity_def cap_or0_def parseNumber_def or_num_def
      file_after_run_def run_def checkConsistency_def senopati_configMap check_location_def
      fixMainStatistics_def clamp_block_def mismatch_issue_def exceeds_issue_def)

section \<open>Backup verification: properties\<close>

lemma has_key_member: "\<not> has_key j k \<Longrightarrow> \<not> has_field j k"
proof (cases j)
  case (JObj kvs)
  assume "\<not> has_key j k"
  then have "k \<notin> fst ` set (rev kvs)" using JObj by simp
  then have "map_of (rev kvs) k = None" by (simp add: map_of_eq_None_iff)
  then show ?thesis using JObj by (simp add: has_field_def)
qed (simp_all add: has_field_def)

lemma verifyBackup_valid_iff:
  "is_valid (verifyBackup path f) \<longleftrightarrow>
     (\<exists>fl j. f = Some fl \<and> fl \<noteq> Zero_size \<and> read_backup path fl = Inr j \<and>
        has_field j ''metadata'' \<and> has_field j ''data'')"
  by (auto simp: verifyBackup_def has_field_def split: option.splits disk_file.splits sum.splits)

text \<open>
  C9.  \<open>verifyBackup\<close> returns invalid for every backup file that is empty, or that does
  not decompress or parse, or whose parsed content has no member \<open>metadata\<close> or no
  member \<open>data\<close>; and it returns valid exactly when all its checks pass: the file is not
  empty, it decompresses and parses, and the test \<open>data[field]\<close> succeeds for both
  \<open>metadata\<close> and \<open>data\<close>.
\<close>

theorem C9_verifyBackup:
  "(f = Some Zero_size \<longrightarrow> \<not> is_valid (verifyBackup path f)) \<and>
   (\<forall>fl e. f = Some fl \<and> read_backup path fl = Inl e \<longrightarrow> \<not> is_valid (verifyBackup path f)) \<and>
   (\<forall>fl j. f = Some fl \<and> read_backup path fl = Inr j \<and>
        (\<not> has_key j ''metadata'' \<or> \<not> has_key j ''data'') \<longrightarrow> \<not> is_valid (verifyBackup path f)) \<and>
   (is_valid (verifyBackup path f) \<longleftrightarrow>
     (\<exists>fl j. f = Some fl \<and> fl \<noteq> Zero_size \<and> read_backup path fl = Inr j \<and>
        has_field j ''metadata'' \<and> has_field j ''data''))"
  using has_key_member by (auto simp: verifyBackup_valid_iff)

text \<open>The checks at work: an empty file, a stream that does not decompress, a wrapper
  without \<open>data\<close>, and the wrapper that \<open>createBackup\<close> writes.\<close>

theorem C9_verifyBackup_witness:
  "\<not> is_valid (verifyBackup ''data/backups/backup-compressed-a.json.gz'' (Some Zero_size)) \<and>
   \<not> is_valid (verifyBackup ''data/backups/backup-compressed-a.json.gz''
        (Some (Plain (Parses sample_wrapper)))) \<and>
   \<not> is_valid (verifyBackup ''data/backups/backup-compressed-a.json.gz''
        (Some (Gzip (Parses (JObj [(''metadata'', JObj [])]))))) \<and>
   is_valid (verifyBackup ''data/backups/backup-compressed-a.json.gz''
        (Some (Gzip (Parses sample_wrapper))))"
proof -
  let ?p = "''data/backups/backup-compressed-a.json.gz''"
  have gz: "ends_with ''.gz'' ?p" by (simp add: ends_with_def)
  have 1: "\<not> is_valid (verifyBackup ?p (Some Zero_size))"
    using C9_verifyBackup [of "Some Zero_size" ?p] by simp
  have 2: "\<not> is_valid (verifyBackup ?p (Some (Plain (Parses sample_wrapper))))"
    using C9_verifyBackup [of "Some (Plain (Parses sample_wrapper))" ?p] gz
    by (simp add: read_backup_def)
  have 3: "\<not> is_valid (verifyBackup ?p (Some (Gzip (Parses (JObj [(''metadata'', JObj [])])))))"
    using C9_verifyBackup [of "Some (Gzip (Parses (JObj [(''metadata'', JObj [])])))" ?p] gz
    by (simp add: read_backup_def)
  have 4: "is_valid (verifyBackup ?p (Some (Gzip (Parses sample_wrapper))))"
    using C9_verifyBackup [of "Some (Gzip (Parses sample_wrapper))" ?p] gz
    by (simp add: read_backup_def has_field_def sample_wrapper_def sample_document_def)
  show ?thesis using 1 2 3 4 by blast
qed

text \<open>A member that is there but \<open>null\<close> fails the test like an absent one.\<close>

lemma verifyBackup_null_data:
  "verifyBackup ''data/backups/backup-compressed-a.json.gz'' (Some (Gzip (Parses null_data_wrapper)))
     = Invalid Invalid_backup_structure \<and> has_key null_data_wrapper ''data''"
  by (simp add: verifyBackup_def read_backup_def ends_with_def null_data_wrapper_def)

section \<open>Emergency recovery: properties\<close>

















section \<open>Consistency verifier: exit code\<close>

text \<open>
  C8.  The claim is that the entry point of the consistency verifier ends the process with
  code 1 whenever one of its checks fails.  For a Configuration with the one location
  SENOPATI and a Data document without locations, \<open>run\<close> returns \<open>success = false\<close>
  with four of the five checks failed; the entry point calls \<open>verifier.run()\<close> and does
  not look at what it returns, so the process ends with code 0.
\<close>

theorem C8_failed_checks_exit_zero:
  "verifier_run (Some one_location_config) (Some no_location_data) =
     Returned False
       [\<lparr>check_name = ''file_structure'', passed = True, check_issues = []\<rparr>,
        \<lparr>check_name = ''location_count'', passed = False,
          check_issues = [Location_count_mismatch 1 0]\<rparr>,
        \<lparr>check_name = ''individual_locations'', passed = False,
          check_issues = [Config_location_not_in_data ''SENOPATI'']\<rparr>,
        \<lparr>check_name = ''total_statistics'', passed = False,
          check_issues = [Stat_capacity_mismatch Bus 62 0, Stat_capacity_mismatch Mobil 200 0]\<rparr>,
        \<lparr>check_name = ''metadata'', passed = False,
          check_issues = [Missing_metadata_field ''total_locations'']\<rparr>] \<and>
   main_exit_code (Some one_location_config) (Some no_location_data) = 0"
  by (simp add: main_exit_code_def verifier_run_def one_location_config_def no_location_data_def
      verifyStructure_def verifyLocationCount_def length_or0_def verifyIndividualLocations_def
      verifyTotalStatistics_def verifyMetadata_def mk_check_def no_text_def version_format_def
      digits_def senopati_entry_def mk_config_location_def Let_def)

text \<open>
  The process ends with code 1 only when a file does not load or a check raises; a check
  that returns issues never changes the exit code.
\<close>

lemma exit_one_only_on_load_failure_or_exception:
  "main_exit_code c d = 1 \<longleftrightarrow>
     (c = None \<or> d = None \<or> (\<exists>e. verifier_run c d = Rejected e))"
  by (auto simp: main_exit_code_def verifier_run_def Let_def split: option.splits sum.splits)

section \<open>Pending-updates validation: properties\<close>

lemma map_of_filter_other:
  "k' \<noteq> k \<Longrightarrow> map_of (filter (\<lambda>kv. fst kv \<noteq> k) xs) k' = map_of xs k'"
  by (induction xs) auto

lemma map_of_set_member:
  "map_of (rev (set_member k v kvs)) k' = (if k' = k then Some v else map_of (rev kvs) k')"
  by (simp add: set_member_def rev_filter map_of_filter_other)

lemma opt_member_assign:
  "opt_member (Some (assign k v u)) k' =
     (case u of JObj kvs \<Rightarrow> if k' = k then Some v else opt_member (Some u) k'
      | other \<Rightarrow> opt_member (Some u) k')"
  by (cases u) (simp_all add: assign_def opt_member_def map_of_set_member)

lemma opt_member_assign_other:
  "k' \<noteq> k \<Longrightarrow> opt_member (Some (assign k v u)) k' = opt_member (Some u) k'"
  by (cases u) (simp_all add: opt_member_assign)



lemma vkey_not_notes: "vkey v \<noteq> ''notes''" "''notes'' \<noteq> vkey v"
  by (cases v; simp)+



lemma value_ok_assign_notes: "value_ok (assign ''notes'' x u) w = value_ok u w"
  by (simp add: value_ok_def opt_member_assign_other vkey_not_notes)
















lemma vehicles_fold:
  "foldl (check_vehicle h info) t [Bus, Mobil, Motor] =
     check_vehicle h info (check_vehicle h info (check_vehicle h info t Bus) Mobil) Motor"
  by simp









lemma show_int_1: "show_int 1 = ''1''"
  by (simp add: show_int_def digit_char_def)






end
